theory Spec2Isabelle
  imports Main
begin

section \<open>Strings and numbers as the TypeScript code uses them\<close>

text \<open>
  Strings are character lists. A number that the code interpolates into a template literal
  (\<^verbatim>\<open>`chapter${i + 1}.xhtml`\<close>) is a non-negative integer there and is rendered in decimal.
\<close>

function show_nat :: "nat \<Rightarrow> string" where
  "show_nat n =
     (if n < 10 then [''0123456789'' ! n]
      else show_nat (n div 10) @ [''0123456789'' ! (n mod 10)])"
  by pat_completeness auto
termination
  by (relation "measure id") auto

declare show_nat.simps [simp del]

text \<open>\<^verbatim>\<open>Array.prototype.join\<close>.\<close>

fun join :: "string \<Rightarrow> string list \<Rightarrow> string" where
  "join sep [] = []"
| "join sep [x] = x"
| "join sep (x # y # ys) = x @ sep @ join sep (y # ys)"

text \<open>
  \<^verbatim>\<open>String.prototype.trim\<close>, on the ASCII white space characters (tab, line feed, vertical tab,
  form feed, carriage return, space).
\<close>

definition is_space :: "char \<Rightarrow> bool" where
  "is_space c = (c \<in> set [CHR 0x09, CHR 0x0A, CHR 0x0B, CHR 0x0C, CHR 0x0D, CHR 0x20])"

definition trim :: "string \<Rightarrow> string" where
  "trim s = rev (dropWhile is_space (rev (dropWhile is_space s)))"

section \<open>Data model (types)\<close>

datatype PublishingFormat = ebook | print | audiobook

datatype DistributionChannel =
  amazon_kdp | ingram_spark | draft2digital | findaway_voices
  | kobo | apple_books | google_play_books | barnes_noble

text \<open>A \<^verbatim>\<open>Buffer\<close>: the code reads nothing of it but its length.\<close>

datatype buffer = Buffer (buf_length: nat)

record Chapter =
  chapter_number :: nat
  title :: string
  content :: string
  word_count :: nat

text \<open>
  \<^verbatim>\<open>BookMetadata\<close> (and \<^verbatim>\<open>OptimizedMetadata\<close>, which only adds analysis fields that no code
  modelled here reads). A \<^verbatim>\<open>Date\<close> is carried as its ISO-8601 text, and the price, which the
  code only passes on, as a whole number.
\<close>

record BookMetadata =
  md_title :: string
  md_subtitle :: "string option"
  md_author :: string
  md_publisher :: string
  md_publication_date :: string
  md_language :: string
  md_genre :: string
  md_description :: string
  md_bisac_categories :: "string list"
  md_keywords :: "string list"
  md_price_usd :: nat

datatype Severity = Critical | Error | Warning

datatype Impact = Low | Medium | High

text \<open>
  Diagnostics. The free-text fields \<^verbatim>\<open>message\<close> and \<^verbatim>\<open>suggestion\<close> of the validator's diagnostics
  are not carried: no code branches on them.
\<close>

record ValidationError =
  code :: string
  severity :: Severity

record ValidationWarning =
  w_code :: string
  impact :: Impact

record ValidationResult =
  valid :: bool
  v_format :: string
  errors :: "ValidationError list"
  warnings :: "ValidationWarning list"
  quality_score :: int

datatype EPUBVersion = epub2 | epub3

record EPUBFile =
  epub_file :: buffer
  epub_size :: nat
  epub_format :: EPUBVersion
  toc_depth :: nat
  has_cover :: bool

datatype ColorProfile = RGB | CMYK

record PDFFile =
  pdf_file :: buffer
  pdf_size :: nat
  trim_size :: string
  page_count :: nat
  bleed :: bool
  color_profile :: ColorProfile

datatype ImageFormat = jpg | png | tiff

text \<open>
  The object that \<^verbatim>\<open>validateCover\<close> reads through the interface \<^verbatim>\<open>CoverDesign\<close>. A field is
  \<open>None\<close> when the object handed over has no such property (it reads as \<^verbatim>\<open>undefined\<close>): the
  orchestrator keeps the cover in a variable of type \<^verbatim>\<open>any\<close> and hands over what
  \<^verbatim>\<open>CoverDesigner.generateCover\<close> returned, a \<^verbatim>\<open>CoverGenerationResult\<close>.
\<close>

record CoverDesign =
  front_cover :: buffer
  dimensions :: "(nat \<times> nat) option"
  cover_format :: "ImageFormat option"
  dpi :: "nat option"
  color_mode :: "ColorProfile option"

text \<open>
  \<^verbatim>\<open>CoverGenerationResult\<close>, the value of \<^verbatim>\<open>CoverDesigner.generateCover\<close>: the images it renders
  (its texts and its cost are not read by the code modelled here). It has no property
  \<^verbatim>\<open>dimensions\<close>, \<^verbatim>\<open>format\<close>, \<^verbatim>\<open>dpi\<close> or \<^verbatim>\<open>color_mode\<close>.
\<close>

record CoverGenerationResult =
  cg_front_cover :: buffer
  cg_full_cover :: "buffer option"
  cg_thumbnail :: buffer

definition as_CoverDesign :: "CoverGenerationResult \<Rightarrow> CoverDesign" where
  "as_CoverDesign r =
     \<lparr>front_cover = cg_front_cover r, dimensions = None, cover_format = None,
      dpi = None, color_mode = None\<rparr>"

section \<open>QualityValidator\<close>

definition mk_error :: "string \<Rightarrow> Severity \<Rightarrow> ValidationError" where
  "mk_error c s = \<lparr>code = c, severity = s\<rparr>"

definition mk_warning :: "string \<Rightarrow> Impact \<Rightarrow> ValidationWarning" where
  "mk_warning c i = \<lparr>w_code = c, impact = i\<rparr>"

text \<open>\<^verbatim>\<open>QualityValidator.calculateQualityScore\<close>.\<close>

definition calculateQualityScore :: "ValidationError list \<Rightarrow> ValidationWarning list \<Rightarrow> int" where
  "calculateQualityScore errs warns =
     (let criticalErrors = int (length (filter (\<lambda>e. severity e = Critical) errs));
          regularErrors = int (length (filter (\<lambda>e. severity e = Error) errs));
          highImpactWarnings = int (length (filter (\<lambda>w. impact w = High) warns));
          mediumImpactWarnings = int (length (filter (\<lambda>w. impact w = Medium) warns));
          lowImpactWarnings = int (length (filter (\<lambda>w. impact w = Low) warns));
          score = 100 - criticalErrors * 20 - regularErrors * 10
                  - highImpactWarnings * 5 - mediumImpactWarnings * 3 - lowImpactWarnings * 1
      in max 0 score)"

text \<open>The verdict every validation method returns: valid iff no critical error.\<close>

definition verdict :: "string \<Rightarrow> ValidationError list \<Rightarrow> ValidationWarning list \<Rightarrow> ValidationResult" where
  "verdict fmt errs warns =
     \<lparr>valid = (length (filter (\<lambda>e. severity e = Critical) errs) = 0),
      v_format = fmt, errors = errs, warnings = warns,
      quality_score = calculateQualityScore errs warns\<rparr>"

text \<open>\<^verbatim>\<open>QualityValidator.validateMetadata\<close>: the pair (errors, warnings).\<close>

definition validateMetadata :: "BookMetadata \<Rightarrow> ValidationError list \<times> ValidationWarning list" where
  "validateMetadata metadata =
     (let e1 = (if md_title metadata = [] \<or> length (trim (md_title metadata)) = 0
                then [mk_error ''MISSING_TITLE'' Critical] else []);
          e2 = (if md_author metadata = [] \<or> length (trim (md_author metadata)) = 0
                then [mk_error ''MISSING_AUTHOR'' Critical] else []);
          w1 = (if md_description metadata = [] \<or> length (md_description metadata) < 150
                then [mk_warning ''SHORT_DESCRIPTION'' High] else []);
          w2 = (if md_description metadata \<noteq> [] \<and> length (md_description metadata) > 4000
                then [mk_warning ''LONG_DESCRIPTION'' Medium] else []);
          w3 = (if length (md_bisac_categories metadata) = 0
                then [mk_warning ''NO_CATEGORIES'' High] else []);
          w4 = (if length (md_keywords metadata) < 7
                then [mk_warning ''FEW_KEYWORDS'' Medium] else [])
      in (e1 @ e2, w1 @ w2 @ w3 @ w4))"

text \<open>
  \<^verbatim>\<open>QualityValidator.validateEPUB\<close>. The call of \<^verbatim>\<open>runEpubCheck\<close> contributes no diagnostic on
  either of its paths (it returns two empty lists, and a failure of it is caught and logged).
\<close>

definition validateEPUB :: "EPUBFile \<Rightarrow> BookMetadata \<Rightarrow> ValidationResult" where
  "validateEPUB epub metadata =
     (let e1 = (if epub_size epub > 650 * 1024 * 1024
                then [mk_error ''EPUB_TOO_LARGE'' Critical] else []);
          w1 = (if epub_format epub = epub2
                then [mk_warning ''EPUB_OLD_VERSION'' Medium] else []);
          e2 = (if \<not> has_cover epub
                then [mk_error ''MISSING_COVER'' Critical] else []);
          w2 = (if toc_depth epub = 0
                then [mk_warning ''NO_TOC'' High] else []);
          metadataValidation = validateMetadata metadata
      in verdict ''EPUB'' (e1 @ e2 @ fst metadataValidation) (w1 @ w2 @ snd metadataValidation))"

record PDFRequirements =
  maxFileSize :: nat
  minPages :: nat
  colorProfile :: ColorProfile

text \<open>\<^verbatim>\<open>getPDFRequirements\<close>: a channel without an entry falls back to the Amazon KDP entry.\<close>

definition getPDFRequirements :: "DistributionChannel \<Rightarrow> PDFRequirements" where
  "getPDFRequirements channel =
     (case channel of
        ingram_spark \<Rightarrow> \<lparr>maxFileSize = 500 * 1024 * 1024, minPages = 24, colorProfile = CMYK\<rparr>
      | _ \<Rightarrow> \<lparr>maxFileSize = 650 * 1024 * 1024, minPages = 24, colorProfile = RGB\<rparr>)"

text \<open>\<^verbatim>\<open>QualityValidator.validatePDF\<close>.\<close>

definition validatePDF :: "PDFFile \<Rightarrow> DistributionChannel \<Rightarrow> ValidationResult" where
  "validatePDF pdf channel =
     (let requirements = getPDFRequirements channel;
          e1 = (if pdf_size pdf > maxFileSize requirements
                then [mk_error ''PDF_TOO_LARGE'' Critical] else []);
          w1 = (if channel = ingram_spark \<and> color_profile pdf \<noteq> CMYK
                then [mk_warning ''WRONG_COLOR_PROFILE'' Medium] else []);
          e2 = (if page_count pdf < minPages requirements
                then [mk_error ''TOO_FEW_PAGES'' Error] else []);
          w2 = (if channel = ingram_spark \<and> \<not> bleed pdf
                then [mk_warning ''NO_BLEED'' High] else [])
      in verdict ''PDF'' (e1 @ e2) (w1 @ w2))"

record CoverRequirements =
  minWidth :: nat
  minHeight :: nat
  allowedFormats :: "ImageFormat list"

definition getCoverRequirements :: "DistributionChannel \<Rightarrow> CoverRequirements" where
  "getCoverRequirements channel =
     (case channel of
        ingram_spark \<Rightarrow> \<lparr>minWidth = 2550, minHeight = 3300, allowedFormats = [jpg, png, tiff]\<rparr>
      | draft2digital \<Rightarrow> \<lparr>minWidth = 1600, minHeight = 2400, allowedFormats = [jpg, png]\<rparr>
      | _ \<Rightarrow> \<lparr>minWidth = 2560, minHeight = 1600, allowedFormats = [jpg, tiff]\<rparr>)"

text \<open>
  The aspect-ratio test \<^verbatim>\<open>w / h < 0.6 || w / h > 0.7\<close> of \<^verbatim>\<open>validateCover\<close>, on whole pixel
  counts and by cross-multiplication. A zero height makes the quotient infinite (the test
  holds) unless the width is zero too (the quotient is NaN and both comparisons fail).
\<close>

definition unusual_aspect_ratio :: "nat \<Rightarrow> nat \<Rightarrow> bool" where
  "unusual_aspect_ratio w h =
     (if h = 0 then w \<noteq> 0 else 10 * w < 6 * h \<or> 10 * w > 7 * h)"

text \<open>
  \<^verbatim>\<open>QualityValidator.validateCover\<close>. Its first test reads \<^verbatim>\<open>cover.dimensions.width\<close>, which
  throws a \<^verbatim>\<open>TypeError\<close> when the object has no \<^verbatim>\<open>dimensions\<close>; the method has no handler. On an
  absent property, \<^verbatim>\<open>cover.dpi < 300\<close> is false, \<^verbatim>\<open>includes(cover.format)\<close> is false and
  \<^verbatim>\<open>cover.color_mode !== 'CMYK'\<close> is true.
\<close>

definition validateCover :: "CoverDesign \<Rightarrow> DistributionChannel \<Rightarrow> string + ValidationResult" where
  "validateCover cover channel =
     (case dimensions cover of
        None \<Rightarrow> Inl ''Cannot read properties of undefined (reading 'width')''
      | Some (width, height) \<Rightarrow>
          (let requirements = getCoverRequirements channel;
               e1 = (if width < minWidth requirements \<or> height < minHeight requirements
                     then [mk_error ''COVER_TOO_SMALL'' Critical] else []);
               w1 = (if unusual_aspect_ratio width height
                     then [mk_warning ''UNUSUAL_ASPECT_RATIO'' Low] else []);
               e2 = (if channel = ingram_spark \<and> (case dpi cover of None \<Rightarrow> False | Some d \<Rightarrow> d < 300)
                     then [mk_error ''LOW_DPI'' Critical] else []);
               e3 = (if (case cover_format cover of None \<Rightarrow> True
                         | Some f \<Rightarrow> f \<notin> set (allowedFormats requirements))
                     then [mk_error ''INVALID_FORMAT'' Error] else []);
               w2 = (if channel = ingram_spark \<and> color_mode cover \<noteq> Some CMYK
                     then [mk_warning ''WRONG_COLOR_MODE'' Medium] else [])
           in Inr (verdict ''Cover Image'' (e1 @ e2 @ e3) (w1 @ w2))))"

section \<open>The zip archive (JSZip) as the converter uses it\<close>

datatype Compression = STORE | DEFLATE

datatype zip_data = Text string | Bytes buffer

text \<open>
  An entry of the zip object: its path, its data and the compression option given with it, if
  any. A file added through \<^verbatim>\<open>zip.folder(d)\<close> has the path \<^verbatim>\<open>d/name\<close>; the directory records that
  the library keeps for the folders themselves are not modelled.
\<close>

record zip_entry =
  entry_name :: string
  entry_data :: zip_data
  entry_compression :: "Compression option"

text \<open>\<^verbatim>\<open>zip.file(name, data, options)\<close>: a new name is appended, a known name is overwritten.\<close>

definition zip_file :: "string \<Rightarrow> zip_data \<Rightarrow> Compression option \<Rightarrow> zip_entry list \<Rightarrow> zip_entry list" where
  "zip_file name d c z =
     (let entry = \<lparr>entry_name = name, entry_data = d, entry_compression = c\<rparr>
      in if name \<in> set (map entry_name z)
         then map (\<lambda>x. if entry_name x = name then entry else x) z
         else z @ [entry])"

text \<open>An entry as it is written to the archive, with the compression method used for it.\<close>

record archive_entry =
  path :: string
  data :: zip_data
  compression_method :: Compression

text \<open>
  \<^verbatim>\<open>zip.generateAsync({compression})\<close>: the entries in the order of the zip object, each with its
  own compression option and otherwise the one of the call.
\<close>

definition generateAsync :: "Compression \<Rightarrow> zip_entry list \<Rightarrow> archive_entry list" where
  "generateAsync dflt z =
     map (\<lambda>x. \<lparr>path = entry_name x, data = entry_data x,
                compression_method = (case entry_compression x of None \<Rightarrow> dflt | Some c \<Rightarrow> c)\<rparr>) z"

section \<open>External collaborators\<close>

text \<open>
  What the code obtains from outside the process is a parameter of the model. An outcome
  \<open>None\<close> means that the step succeeds, \<open>Some msg\<close> (or \<open>Inl msg\<close>) that it throws an error
  with that message.
  \<^item> \<open>uuidv4 e n\<close>: the value of the \<open>n\<close>-th \<^verbatim>\<open>uuidv4()\<close> call; \<open>now_ms\<close>, \<open>now_iso\<close>: the clock
    (\<^verbatim>\<open>Date.now()\<close>, \<^verbatim>\<open>new Date().toISOString()\<close>); \<open>outputDir\<close>: \<^verbatim>\<open>config.storage.outputDir\<close>.
  \<^item> \<open>fs_mkdir\<close>, \<open>fs_writeFile\<close>: the file-system calls, by path; \<open>db_query\<close>: a database
    statement, by the head of its text.
  \<^item> \<open>zip_bytes\<close>: the bytes that the zip library generates for the entries of an archive;
    \<open>pdf_bytes\<close>, \<open>pdf_pages\<close>: the bytes that the PDF library renders and the page count read
    back from them; \<open>ebook_convert\<close>: the external MOBI converter.
  \<^item> \<open>assignISBN e i f\<close>: the \<open>i\<close>-th call of \<^verbatim>\<open>ISBNManager.assignISBN\<close>, for format \<open>f\<close>;
    \<open>registerCopyright\<close>, \<open>applyForLCCN\<close>, \<open>generateCover\<close>, \<open>optimizeMetadata\<close>: the services
    of phases 2, 3, 5 and 6.
  \<^item> \<open>ingram_apiKey\<close>: whether an IngramSpark API key is configured; \<open>ingram_api\<close>: the outcome
    of the requests to that API (the title id it assigns).
\<close>

record env =
  uuidv4 :: "nat \<Rightarrow> string"
  now_ms :: nat
  now_iso :: string
  outputDir :: string
  fs_mkdir :: "string \<Rightarrow> string option"
  fs_writeFile :: "string \<Rightarrow> string option"
  db_query :: "string \<Rightarrow> string option"
  zip_bytes :: "archive_entry list \<Rightarrow> string + buffer"
  pdf_bytes :: "string + buffer"
  pdf_pages :: "buffer \<Rightarrow> nat"
  ebook_convert :: "buffer \<Rightarrow> string + buffer"
  assignISBN :: "nat \<Rightarrow> PublishingFormat \<Rightarrow> string option"
  registerCopyright :: "string option"
  applyForLCCN :: "string option"
  generateCover :: "string + CoverGenerationResult"
  optimizeMetadata :: "BookMetadata \<Rightarrow> string + BookMetadata"
  ingram_apiKey :: bool
  ingram_api :: "string + string"

definition path_join :: "string \<Rightarrow> string \<Rightarrow> string" where
  "path_join a b = a @ ''/'' @ b"

section \<open>FormatConverter: the EPUB package\<close>

text \<open>\<^verbatim>\<open>text.replace(/c/g, s)\<close> for a single character \<open>c\<close>.\<close>

definition replace_char :: "char \<Rightarrow> string \<Rightarrow> string \<Rightarrow> string" where
  "replace_char c s txt = concat (map (\<lambda>x. if x = c then s else [x]) txt)"

text \<open>\<^verbatim>\<open>FormatConverter.escapeXML\<close>: five replacements, the ampersand first.\<close>

definition escapeXML :: "string \<Rightarrow> string" where
  \<open>escapeXML txt =
     replace_char (CHR 0x27) ''&apos;''
       (replace_char (CHR 0x22) ''&quot;''
         (replace_char CHR ''>'' ''&gt;''
           (replace_char CHR ''<'' ''&lt;''
             (replace_char CHR ''&'' ''&amp;'' txt))))\<close>

definition nl :: string where
  "nl = [CHR 0x0A]"

definition generateContainerXML :: string where
  \<open>generateContainerXML = join nl
     [''<?xml version="1.0" encoding="UTF-8"?>'',
      ''<container version="1.0" xmlns="urn:oasis:names:tc:opendocument:xmlns:container">'',
      ''  <rootfiles>'',
      ''    <rootfile full-path="OEBPS/content.opf" media-type="application/oebps-package+xml"/>'',
      ''  </rootfiles>'',
      ''</container>'']\<close>

text \<open>
  The package document. Its manifest and spine are kept as lists of entries, which
  \<open>generateContentOPF\<close> renders line by line as the template literal of the source does.
\<close>

record manifest_item =
  item_id :: string
  href :: string
  media_type :: string
  properties :: "string option"

definition render_item :: "manifest_item \<Rightarrow> string" where
  \<open>render_item it =
     ''    <item id="'' @ item_id it @ ''" href="'' @ href it
       @ ''" media-type="'' @ media_type it @ ''"''
       @ (case properties it of None \<Rightarrow> [] | Some p \<Rightarrow> '' properties="'' @ p @ ''"'')
       @ ''/>''\<close>

definition render_itemref :: "string \<Rightarrow> string" where
  \<open>render_itemref idref = ''    <itemref idref="'' @ idref @ ''"/>''\<close>

text \<open>The name the code gives to the chapter at array index \<open>i\<close>: \<^verbatim>\<open>chapter${i + 1}\<close>.\<close>

definition chapter_id :: "nat \<Rightarrow> string" where
  "chapter_id i = ''chapter'' @ show_nat (i + 1)"

definition chapter_href :: "nat \<Rightarrow> string" where
  "chapter_href i = chapter_id i @ ''.xhtml''"

text \<open>\<^verbatim>\<open>chapterManifest\<close>: one item for each array index.\<close>

definition chapterManifest :: "Chapter list \<Rightarrow> manifest_item list" where
  "chapterManifest chapters =
     map (\<lambda>i. \<lparr>item_id = chapter_id i, href = chapter_href i,
                media_type = ''application/xhtml+xml'', properties = None\<rparr>)
         [0..<length chapters]"

text \<open>\<^verbatim>\<open>chapterSpine\<close>: one itemref for each array index.\<close>

definition chapterSpine :: "Chapter list \<Rightarrow> string list" where
  "chapterSpine chapters = map chapter_id [0..<length chapters]"

text \<open>The five manifest items that the template writes out for every book.\<close>

definition fixedManifest :: "manifest_item list" where
  "fixedManifest =
     [\<lparr>item_id = ''nav'', href = ''nav.xhtml'',
        media_type = ''application/xhtml+xml'', properties = Some ''nav''\<rparr>,
      \<lparr>item_id = ''ncx'', href = ''toc.ncx'',
        media_type = ''application/x-dtbncx+xml'', properties = None\<rparr>,
      \<lparr>item_id = ''cover-image'', href = ''cover.jpg'',
        media_type = ''image/jpeg'', properties = Some ''cover-image''\<rparr>,
      \<lparr>item_id = ''cover'', href = ''cover.xhtml'',
        media_type = ''application/xhtml+xml'', properties = None\<rparr>,
      \<lparr>item_id = ''css'', href = ''styles.css'',
        media_type = ''text/css'', properties = None\<rparr>]"

definition opf_manifest :: "Chapter list \<Rightarrow> manifest_item list" where
  "opf_manifest chapters = fixedManifest @ chapterManifest chapters"


text \<open>The value of the \<^verbatim>\<open>dc:identifier\<close> element, from the \<open>g\<close>-th \<^verbatim>\<open>uuidv4()\<close> call.\<close>

definition opf_identifier :: "env \<Rightarrow> nat \<Rightarrow> string" where
  "opf_identifier e g = ''urn:uuid:'' @ uuidv4 e g"

text \<open>The metadata elements of the package document: element name and text.\<close>

definition opf_metadata :: "env \<Rightarrow> nat \<Rightarrow> BookMetadata \<Rightarrow> (string \<times> string) list" where
  "opf_metadata e g metadata =
     [(''dc:identifier'', opf_identifier e g),
      (''dc:title'', escapeXML (md_title metadata)),
      (''dc:creator'', escapeXML (md_author metadata)),
      (''dc:language'', md_language metadata),
      (''dc:publisher'', escapeXML (md_publisher metadata)),
      (''dc:date'', takeWhile (\<lambda>c. c \<noteq> CHR ''T'') (md_publication_date metadata)),
      (''dc:description'', escapeXML (md_description metadata)),
      (''meta'', now_iso e)]"

definition render_metadata :: "string \<times> string \<Rightarrow> string" where
  \<open>render_metadata el =
     ''    <'' @ fst el
       @ (if fst el = ''dc:identifier'' then '' id="BookID"''
          else if fst el = ''meta'' then '' property="dcterms:modified"'' else [])
       @ ''>'' @ snd el @ ''</'' @ fst el @ ''>''\<close>

text \<open>
  \<^verbatim>\<open>FormatConverter.generateContentOPF\<close>. It draws one uuid; the result is the text and the
  number of uuids drawn so far.
\<close>

definition generateContentOPF :: "env \<Rightarrow> nat \<Rightarrow> BookMetadata \<Rightarrow> Chapter list \<Rightarrow> string \<times> nat" where
  \<open>generateContentOPF e g metadata chapters =
     (join nl
        ([''<?xml version="1.0" encoding="UTF-8"?>'',
          ''<package xmlns="http://www.idpf.org/2007/opf" version="3.0" unique-identifier="BookID">'',
          ''  <metadata xmlns:dc="http://purl.org/dc/elements/1.1/">'']
         @ map render_metadata (opf_metadata e g metadata)
         @ [''  </metadata>'',
            ''  <manifest>'']
         @ map render_item fixedManifest
         @ [join nl (map render_item (chapterManifest chapters)),
            ''  </manifest>'',
            ''  <spine toc="ncx">'',
            render_itemref ''cover'',
            join nl (map render_itemref (chapterSpine chapters)),
            ''  </spine>'',
            ''</package>'']),
      g + 1)\<close>

text \<open>The value of the \<^verbatim>\<open>dtb:uid\<close> meta element of the NCX, from the \<open>g\<close>-th \<^verbatim>\<open>uuidv4()\<close> call.\<close>

definition ncx_uid :: "env \<Rightarrow> nat \<Rightarrow> string" where
  "ncx_uid e g = ''urn:uuid:'' @ uuidv4 e g"

definition navPoint :: "nat \<Rightarrow> Chapter \<Rightarrow> string" where
  \<open>navPoint i chapter = join nl
     [''    <navPoint id="'' @ chapter_id i @ ''" playOrder="'' @ show_nat (i + 1) @ ''">'',
      ''      <navLabel><text>'' @ escapeXML (title chapter) @ ''</text></navLabel>'',
      ''      <content src="'' @ chapter_href i @ ''"/>'',
      ''    </navPoint>'']\<close>

text \<open>\<^verbatim>\<open>FormatConverter.generateTocNCX\<close>. It draws a uuid of its own.\<close>

definition generateTocNCX :: "env \<Rightarrow> nat \<Rightarrow> BookMetadata \<Rightarrow> Chapter list \<Rightarrow> string \<times> nat" where
  \<open>generateTocNCX e g metadata chapters =
     (join nl
        [''<?xml version="1.0" encoding="UTF-8"?>'',
         ''<ncx xmlns="http://www.daisy.org/z3986/2005/ncx/" version="2005-1">'',
         ''  <head>'',
         ''    <meta name="dtb:uid" content="'' @ ncx_uid e g @ ''"/>'',
         ''    <meta name="dtb:depth" content="1"/>'',
         ''  </head>'',
         ''  <docTitle><text>'' @ escapeXML (md_title metadata) @ ''</text></docTitle>'',
         ''  <docAuthor><text>'' @ escapeXML (md_author metadata) @ ''</text></docAuthor>'',
         ''  <navMap>'',
         join nl (map (\<lambda>i. navPoint i (chapters ! i)) [0..<length chapters]),
         ''  </navMap>'',
         ''</ncx>''],
      g + 1)\<close>

text \<open>\<^verbatim>\<open>FormatConverter.generateNavXHTML\<close>.\<close>

definition generateNavXHTML :: "Chapter list \<Rightarrow> string" where
  \<open>generateNavXHTML chapters = join nl
     [''<?xml version="1.0" encoding="UTF-8"?>'',
      ''<!DOCTYPE html>'',
      ''<html xmlns="http://www.w3.org/1999/xhtml" xmlns:epub="http://www.idpf.org/2007/ops">'',
      ''  <head>'',
      ''    <title>Table of Contents</title>'',
      ''  </head>'',
      ''  <body>'',
      ''    <nav epub:type="toc">'',
      ''      <h1>Table of Contents</h1>'',
      ''      <ol>'',
      join nl (map (\<lambda>i. ''      <li><a href="'' @ chapter_href i @ ''">''
                         @ escapeXML (title (chapters ! i)) @ ''</a></li>'')
                   [0..<length chapters]),
      ''      </ol>'',
      ''    </nav>'',
      ''  </body>'',
      ''</html>'']\<close>

definition generateCoverXHTML :: string where
  \<open>generateCoverXHTML = join nl
     [''<?xml version="1.0" encoding="UTF-8"?>'',
      ''<!DOCTYPE html>'',
      ''<html xmlns="http://www.w3.org/1999/xhtml">'',
      ''  <head>'',
      ''    <title>Cover</title>'',
      ''    <style>body { margin: 0; padding: 0; text-align: center; }</style>'',
      ''  </head>'',
      ''  <body>'',
      ''    <img src="cover.jpg" alt="Cover" style="max-width: 100%; max-height: 100%;"/>'',
      ''  </body>'',
      ''</html>'']\<close>

definition generateStylesheet :: string where
  \<open>generateStylesheet = join nl
     [''/* EPUB Stylesheet */'',
      ''body {'',
      ''  font-family: Georgia, serif;'',
      ''  font-size: 1em;'',
      ''  line-height: 1.6;'',
      ''  margin: 1em;'',
      ''}'',
      [],
      ''h1 {'',
      ''  font-size: 1.8em;'',
      ''  margin-bottom: 1em;'',
      ''  text-align: center;'',
      ''}'',
      [],
      ''.chapter-content {'',
      ''  text-align: justify;'',
      ''}'',
      [],
      ''p {'',
      ''  margin-bottom: 1em;'',
      ''  text-indent: 1.5em;'',
      ''}'',
      [],
      ''p.first {'',
      ''  text-indent: 0;'',
      ''}'']\<close>

text \<open>\<^verbatim>\<open>content.split('\n\n')\<close>: the pieces between successive blank-line separators.\<close>

fun split_paragraphs :: "string \<Rightarrow> string \<Rightarrow> string list" where
  "split_paragraphs acc [] = [rev acc]"
| "split_paragraphs acc [a] = [rev (a # acc)]"
| "split_paragraphs acc (a # b # rest) =
     (if a = CHR 0x0A \<and> b = CHR 0x0A then rev acc # split_paragraphs [] rest
      else split_paragraphs (a # acc) (b # rest))"

text \<open>\<^verbatim>\<open>FormatConverter.formatChapterContent\<close>.\<close>

definition formatChapterContent :: "string \<Rightarrow> string" where
  "formatChapterContent txt =
     join (nl @ ''    '')
       (map (\<lambda>para. ''<p>'' @ escapeXML (trim para) @ ''</p>'')
          (filter (\<lambda>para. trim para \<noteq> []) (split_paragraphs [] txt)))"

text \<open>\<^verbatim>\<open>FormatConverter.generateChapterXHTML\<close>.\<close>

definition generateChapterXHTML :: "Chapter \<Rightarrow> string" where
  \<open>generateChapterXHTML chapter = join nl
     [''<?xml version="1.0" encoding="UTF-8"?>'',
      ''<!DOCTYPE html>'',
      ''<html xmlns="http://www.w3.org/1999/xhtml">'',
      ''  <head>'',
      ''    <title>'' @ escapeXML (title chapter) @ ''</title>'',
      ''    <link rel="stylesheet" type="text/css" href="styles.css"/>'',
      ''  </head>'',
      ''  <body>'',
      ''    <h1>'' @ escapeXML (title chapter) @ ''</h1>'',
      ''    <div class="chapter-content">'',
      ''      '' @ formatChapterContent (content chapter),
      ''    </div>'',
      ''  </body>'',
      ''</html>'']\<close>

section \<open>FormatConverter: the conversions\<close>

record EPUBParams =
  ep_project_id :: string
  ep_chapters :: "Chapter list"
  ep_metadata :: BookMetadata
  ep_cover :: "CoverDesign option"

definition formatsDir :: "env \<Rightarrow> string" where
  "formatsDir e = path_join (outputDir e) ''formats''"

text \<open>Step 9 of \<^verbatim>\<open>convertToEPUB\<close>: the loop that adds \<^verbatim>\<open>chapter${i + 1}.xhtml\<close> for each index.\<close>

definition add_chapters :: "Chapter list \<Rightarrow> zip_entry list \<Rightarrow> zip_entry list" where
  "add_chapters chapters z =
     foldl (\<lambda>zip i. zip_file (''OEBPS/'' @ chapter_href i)
                       (Text (generateChapterXHTML (chapters ! i))) None zip)
           z [0..<length chapters]"

text \<open>
  Steps 1 to 9 of \<^verbatim>\<open>convertToEPUB\<close>: the zip object before the archive is generated, and the
  number of uuids drawn.
\<close>

definition epub_zip :: "env \<Rightarrow> nat \<Rightarrow> EPUBParams \<Rightarrow> zip_entry list \<times> nat" where
  "epub_zip e g params =
     (let zip1 = zip_file ''mimetype'' (Text ''application/epub+zip'') (Some STORE) [];
          zip2 = zip_file ''META-INF/container.xml'' (Text generateContainerXML) None zip1;
          (contentOPF, g1) = generateContentOPF e g (ep_metadata params) (ep_chapters params);
          zip4 = zip_file ''OEBPS/content.opf'' (Text contentOPF) None zip2;
          (tocNCX, g2) = generateTocNCX e g1 (ep_metadata params) (ep_chapters params);
          zip5 = zip_file ''OEBPS/toc.ncx'' (Text tocNCX) None zip4;
          zip6 = zip_file ''OEBPS/nav.xhtml'' (Text (generateNavXHTML (ep_chapters params))) None zip5;
          zip7 = zip_file ''OEBPS/styles.css'' (Text generateStylesheet) None zip6;
          zip8 = (case ep_cover params of
                    None \<Rightarrow> zip7
                  | Some cover \<Rightarrow>
                      zip_file ''OEBPS/cover.xhtml'' (Text generateCoverXHTML) None
                        (zip_file ''OEBPS/cover.jpg'' (Bytes (front_cover cover)) None zip7));
          zip9 = add_chapters (ep_chapters params) zip8
      in (zip9, g2))"

text \<open>Step 10: the entries of the generated archive.\<close>

definition epub_archive :: "env \<Rightarrow> nat \<Rightarrow> EPUBParams \<Rightarrow> archive_entry list" where
  "epub_archive e g params = generateAsync DEFLATE (fst (epub_zip e g params))"

text \<open>
  \<^verbatim>\<open>FormatConverter.convertToEPUB\<close>. Whatever is thrown inside is thrown again with the prefix
  \<^verbatim>\<open>EPUB conversion failed: \<close>. The field \<^verbatim>\<open>validation\<close> of the result is a constant and left out.
\<close>

definition convertToEPUB :: "env \<Rightarrow> nat \<Rightarrow> EPUBParams \<Rightarrow> string + EPUBFile" where
  "convertToEPUB e g params =
     (case zip_bytes e (epub_archive e g params) of
        Inl msg \<Rightarrow> Inl (''EPUB conversion failed: '' @ msg)
      | Inr epubBuffer \<Rightarrow>
          (case fs_writeFile e (path_join (formatsDir e)
                  (ep_project_id params @ ''_'' @ show_nat (now_ms e) @ ''.epub'')) of
             Some msg \<Rightarrow> Inl (''EPUB conversion failed: '' @ msg)
           | None \<Rightarrow>
               Inr \<lparr>epub_file = epubBuffer, epub_size = buf_length epubBuffer,
                    epub_format = epub3, toc_depth = 1,
                    has_cover = (ep_cover params \<noteq> None)\<rparr>))"

record MOBIFile =
  mobi_file :: buffer
  mobi_size :: nat

text \<open>
  \<^verbatim>\<open>FormatConverter.convertToMOBI\<close>: the external converter, between two writes. The outcome of
  running the tool, reading its output and removing the temporary files is \<open>ebook_convert\<close>.
\<close>

definition convertToMOBI :: "env \<Rightarrow> buffer \<Rightarrow> string \<Rightarrow> string + MOBIFile" where
  "convertToMOBI e epubBuffer projectId =
     (case fs_writeFile e (path_join (formatsDir e) (''temp_'' @ projectId @ ''.epub'')) of
        Some msg \<Rightarrow> Inl (''MOBI conversion failed: '' @ msg)
      | None \<Rightarrow>
          (case ebook_convert e epubBuffer of
             Inl msg \<Rightarrow> Inl (''MOBI conversion failed: '' @ msg)
           | Inr mobiBuffer \<Rightarrow>
               (case fs_writeFile e (path_join (formatsDir e)
                       (projectId @ ''_'' @ show_nat (now_ms e) @ ''.mobi'')) of
                  Some msg \<Rightarrow> Inl (''MOBI conversion failed: '' @ msg)
                | None \<Rightarrow> Inr \<lparr>mobi_file = mobiBuffer, mobi_size = buf_length mobiBuffer\<rparr>)))"

record PDFParams =
  pp_project_id :: string
  pp_chapters :: "Chapter list"
  pp_metadata :: BookMetadata
  pp_trim_size :: "string option"
  pp_include_bleed :: "bool option"

text \<open>
  \<^verbatim>\<open>FormatConverter.convertToPDF\<close>. The bytes that the PDF library renders and the page count
  read back from them are \<open>pdf_bytes\<close> and \<open>pdf_pages\<close>.
\<close>

definition convertToPDF :: "env \<Rightarrow> PDFParams \<Rightarrow> string + PDFFile" where
  "convertToPDF e params =
     (let trimSize = (case pp_trim_size params of None \<Rightarrow> ''6x9'' | Some t \<Rightarrow> t)
      in case pdf_bytes e of
           Inl msg \<Rightarrow> Inl (''PDF conversion failed: '' @ msg)
         | Inr pdfBuffer \<Rightarrow>
             (case fs_writeFile e (path_join (formatsDir e)
                     (pp_project_id params @ ''_'' @ show_nat (now_ms e) @ ''.pdf'')) of
                Some msg \<Rightarrow> Inl (''PDF conversion failed: '' @ msg)
              | None \<Rightarrow>
                  Inr \<lparr>pdf_file = pdfBuffer, pdf_size = buf_length pdfBuffer,
                       trim_size = trimSize, page_count = pdf_pages e pdfBuffer,
                       bleed = (case pp_include_bleed params of None \<Rightarrow> False | Some b \<Rightarrow> b),
                       color_profile = RGB\<rparr>))"

section \<open>Platform publishers\<close>

record SubmissionRequest =
  req_isbn :: string
  req_title :: string
  req_author :: string
  req_description :: string
  req_categories :: "string list"
  req_keywords :: "string list"
  req_cover :: buffer
  req_manuscript :: "buffer option"
  req_price :: nat
  req_territories :: "string list"
  req_drm_enabled :: "bool option"

datatype SubmissionStatus = ready_for_upload | submitted | status_error

text \<open>\<^verbatim>\<open>SubmissionResult\<close>, without its instruction text and upload URL.\<close>

record SubmissionResult =
  submission_id :: string
  platform :: DistributionChannel
  status :: SubmissionStatus

text \<open>
  The verdict of an adapter's \<^verbatim>\<open>validateFiles\<close>: its score is
  \<^verbatim>\<open>100 - errors.length * 10 - warnings.length * 5\<close>.
\<close>

definition adapter_verdict :: "string \<Rightarrow> ValidationError list \<Rightarrow> ValidationWarning list \<Rightarrow> ValidationResult" where
  "adapter_verdict fmt errs warns =
     \<lparr>valid = (length (filter (\<lambda>e. severity e = Critical) errs) = 0),
      v_format = fmt, errors = errs, warnings = warns,
      quality_score = 100 - int (length errs) * 10 - int (length warns) * 5\<rparr>"

text \<open>
  \<^verbatim>\<open>AmazonKDPPublisher.validateFiles\<close>. Reading \<^verbatim>\<open>request.manuscript.length\<close> throws a
  \<^verbatim>\<open>TypeError\<close> when the request carries no manuscript.
\<close>

definition kdp_validateFiles :: "SubmissionRequest \<Rightarrow> string + ValidationResult" where
  "kdp_validateFiles request =
     (case req_manuscript request of
        None \<Rightarrow> Inl ''Cannot read properties of undefined (reading 'length')''
      | Some manuscript \<Rightarrow>
          (let e1 = (if buf_length manuscript > 650 * 1024 * 1024
                     then [mk_error ''MANUSCRIPT_TOO_LARGE'' Critical] else []);
               e2 = (if buf_length (req_cover request) = 0
                     then [mk_error ''MISSING_COVER'' Critical] else []);
               e3 = (if req_title request = [] \<or> length (req_title request) = 0
                     then [mk_error ''MISSING_TITLE'' Critical] else []);
               e4 = (if req_author request = [] \<or> length (req_author request) = 0
                     then [mk_error ''MISSING_AUTHOR'' Critical] else []);
               w1 = (if length (req_categories request) > 2
                     then [mk_warning ''TOO_MANY_CATEGORIES'' Medium] else []);
               w2 = (if length (req_keywords request) > 7
                     then [mk_warning ''TOO_MANY_KEYWORDS'' Low] else [])
           in Inr (adapter_verdict ''KDP Submission'' (e1 @ e2 @ e3 @ e4) (w1 @ w2))))"

text \<open>The first failure among a sequence of outcomes (\<open>None\<close>: the step succeeded).\<close>

fun first_failure :: "string option list \<Rightarrow> string option" where
  "first_failure [] = None"
| "first_failure (None # xs) = first_failure xs"
| "first_failure (Some msg # xs) = Some msg"

text \<open>
  \<^verbatim>\<open>AmazonKDPPublisher.submitBook\<close>: a verdict with a critical error is returned as a result of
  status \<^verbatim>\<open>error\<close>; anything thrown (by the validation, by writing the package, by saving the
  record) is thrown again with the prefix \<^verbatim>\<open>KDP submission failed: \<close>.
\<close>

definition kdp_submitBook :: "env \<Rightarrow> SubmissionRequest \<Rightarrow> string + SubmissionResult" where
  "kdp_submitBook e request =
     (case kdp_validateFiles request of
        Inl msg \<Rightarrow> Inl (''KDP submission failed: '' @ msg)
      | Inr validation \<Rightarrow>
          if \<not> valid validation
             \<and> length (filter (\<lambda>x. severity x = Critical) (errors validation)) > 0
          then Inr \<lparr>submission_id = [], platform = amazon_kdp, status = status_error\<rparr>
          else
            (let submissionId = ''kdp_'' @ show_nat (now_ms e);
                 packageDir = path_join (path_join (outputDir e) ''kdp_submissions'') submissionId
             in case first_failure
                       [fs_mkdir e packageDir,
                        fs_writeFile e (path_join packageDir ''manuscript.mobi''),
                        fs_writeFile e (path_join packageDir ''cover.jpg''),
                        fs_writeFile e (path_join packageDir ''metadata.json''),
                        db_query e ''INSERT INTO prose.platform_submissions''] of
                  Some msg \<Rightarrow> Inl (''KDP submission failed: '' @ msg)
                | None \<Rightarrow>
                    Inr \<lparr>submission_id = submissionId, platform = amazon_kdp,
                         status = ready_for_upload\<rparr>))"

text \<open>\<^verbatim>\<open>IngramSparkPublisher.validateFiles\<close>.\<close>

definition ingram_validateFiles :: "SubmissionRequest \<Rightarrow> string + ValidationResult" where
  "ingram_validateFiles request =
     (let e1 = (if req_isbn request = []
                then [mk_error ''MISSING_ISBN'' Critical] else [])
      in case req_manuscript request of
           None \<Rightarrow> Inl ''Cannot read properties of undefined (reading 'length')''
         | Some manuscript \<Rightarrow>
             (let e2 = (if buf_length manuscript > 500 * 1024 * 1024
                        then [mk_error ''PDF_TOO_LARGE'' Critical] else [])
              in Inr (adapter_verdict ''IngramSpark Submission'' (e1 @ e2) [])))"

text \<open>
  \<^verbatim>\<open>IngramSparkPublisher.submitBook\<close>: through the API when a key is configured (\<open>ingram_api\<close> is
  the outcome of its three requests: an error message or the title id), and otherwise a
  package for a manual upload.
\<close>

definition ingram_submitBook :: "env \<Rightarrow> SubmissionRequest \<Rightarrow> string + SubmissionResult" where
  "ingram_submitBook e request =
     (case ingram_validateFiles request of
        Inl msg \<Rightarrow> Inl (''IngramSpark submission failed: '' @ msg)
      | Inr validation \<Rightarrow>
          if \<not> valid validation
             \<and> length (filter (\<lambda>x. severity x = Critical) (errors validation)) > 0
          then Inr \<lparr>submission_id = [], platform = ingram_spark, status = status_error\<rparr>
          else if ingram_apiKey e then
            (case ingram_api e of
               Inl msg \<Rightarrow> Inl (''IngramSpark submission failed: '' @ msg)
             | Inr titleId \<Rightarrow>
                 (case db_query e ''INSERT INTO prose.platform_submissions'' of
                    Some msg \<Rightarrow> Inl (''IngramSpark submission failed: '' @ msg)
                  | None \<Rightarrow>
                      Inr \<lparr>submission_id = titleId, platform = ingram_spark,
                           status = submitted\<rparr>))
          else
            (let submissionId = ''ingram_'' @ show_nat (now_ms e);
                 packageDir = path_join (path_join (outputDir e) ''ingram_submissions'') submissionId
             in case first_failure
                       [fs_mkdir e packageDir,
                        fs_writeFile e (path_join packageDir ''interior.pdf''),
                        fs_writeFile e (path_join packageDir ''cover.pdf''),
                        fs_writeFile e (path_join packageDir ''metadata.json''),
                        db_query e ''INSERT INTO prose.platform_submissions''] of
                  Some msg \<Rightarrow> Inl (''IngramSpark submission failed: '' @ msg)
                | None \<Rightarrow>
                    Inr \<lparr>submission_id = submissionId, platform = ingram_spark,
                         status = ready_for_upload\<rparr>))"

text \<open>The two adapters that only prepare instructions: they never throw.\<close>

definition d2d_submitBook :: "env \<Rightarrow> SubmissionRequest \<Rightarrow> string + SubmissionResult" where
  "d2d_submitBook e request =
     Inr \<lparr>submission_id = ''d2d_'' @ show_nat (now_ms e), platform = draft2digital,
          status = ready_for_upload\<rparr>"

definition findaway_submitBook :: "env \<Rightarrow> SubmissionRequest \<Rightarrow> string + SubmissionResult" where
  "findaway_submitBook e request =
     Inr \<lparr>submission_id = ''findaway_'' @ show_nat (now_ms e), platform = findaway_voices,
          status = ready_for_upload\<rparr>"

text \<open>
  \<^verbatim>\<open>this.publishers[channel]\<close>: the object has four keys; any other channel reads as
  \<^verbatim>\<open>undefined\<close>.
\<close>

definition publishers :: "DistributionChannel \<Rightarrow> (env \<Rightarrow> SubmissionRequest \<Rightarrow> string + SubmissionResult) option" where
  "publishers channel =
     (case channel of
        amazon_kdp \<Rightarrow> Some kdp_submitBook
      | ingram_spark \<Rightarrow> Some ingram_submitBook
      | draft2digital \<Rightarrow> Some d2d_submitBook
      | findaway_voices \<Rightarrow> Some findaway_submitBook
      | _ \<Rightarrow> None)"

section \<open>PublishingOrchestrator\<close>

datatype PhaseName =
  isbn_acquisition | copyright_registration | lccn_application | format_conversion
  | cover_generation | metadata_optimization | quality_validation | platform_submission

definition phase_name :: "PhaseName \<Rightarrow> string" where
  "phase_name ph =
     (case ph of
        isbn_acquisition \<Rightarrow> ''isbn_acquisition''
      | copyright_registration \<Rightarrow> ''copyright_registration''
      | lccn_application \<Rightarrow> ''lccn_application''
      | format_conversion \<Rightarrow> ''format_conversion''
      | cover_generation \<Rightarrow> ''cover_generation''
      | metadata_optimization \<Rightarrow> ''metadata_optimization''
      | quality_validation \<Rightarrow> ''quality_validation''
      | platform_submission \<Rightarrow> ''platform_submission'')"

text \<open>\<^verbatim>\<open>PublishingOrchestrator.getPhasePercentage\<close>.\<close>

definition getPhasePercentage :: "PhaseName \<Rightarrow> nat" where
  "getPhasePercentage ph =
     (case ph of
        isbn_acquisition \<Rightarrow> 10
      | copyright_registration \<Rightarrow> 20
      | lccn_application \<Rightarrow> 30
      | format_conversion \<Rightarrow> 50
      | cover_generation \<Rightarrow> 65
      | metadata_optimization \<Rightarrow> 75
      | quality_validation \<Rightarrow> 85
      | platform_submission \<Rightarrow> 100)"

datatype PhaseState = pending | in_progress | completed | failed

text \<open>\<^verbatim>\<open>PublishingPhaseStatus\<close> and \<^verbatim>\<open>PublishingPipeline\<close>, without their time stamps.\<close>

record PublishingPhaseStatus =
  phase :: PhaseName
  phase_status :: PhaseState
  progress :: nat
  message :: "string option"

record PublishingPipeline =
  pl_project_id :: string
  current_phase :: string
  progress_percentage :: nat
  phases :: "PublishingPhaseStatus list"

text \<open>
  The events handed to \<^verbatim>\<open>this.emit\<close>: a progress event (project, phase, progress, message) and
  an error event (project, phase, error message). An emitted event is recorded in a log.
\<close>

datatype PublishingEvent =
  ProgressEvent string string nat string
  | ErrorEvent string string string

text \<open>
  The state of one \<^verbatim>\<open>publishBook\<close> call: the variables that the phase bodies share (\<open>locals\<close>),
  the pipeline object and the events emitted so far.
\<close>

record 'c orchestration =
  locals :: 'c
  pipeline :: PublishingPipeline
  emitted :: "PublishingEvent list"

text \<open>
  The status object that \<^verbatim>\<open>runPhase\<close> pushed is the last element of \<^verbatim>\<open>pipeline.phases\<close>; the
  assignments to it after the body has run are updates of that element.
\<close>

definition update_last :: "('a \<Rightarrow> 'a) \<Rightarrow> 'a list \<Rightarrow> 'a list" where
  "update_last f xs = (case rev xs of [] \<Rightarrow> [] | x # r \<Rightarrow> rev (f x # r))"

text \<open>
  \<^verbatim>\<open>PublishingOrchestrator.runPhase\<close>. A phase body takes the shared variables and gives what it
  throws, if anything (\<open>Some msg\<close>), and the shared variables as it leaves them. The result is
  the error thrown again, if any, and the new state.
\<close>

definition runPhase ::
  "PhaseName \<Rightarrow> ('c \<Rightarrow> string option \<times> 'c) \<Rightarrow> 'c orchestration \<Rightarrow> string option \<times> 'c orchestration" where
  "runPhase ph handler st =
     (let phaseStatus = \<lparr>phase = ph, phase_status = in_progress, progress = 0, message = None\<rparr>;
          pl1 = (pipeline st)\<lparr>phases := phases (pipeline st) @ [phaseStatus],
                              current_phase := phase_name ph\<rparr>;
          ev1 = emitted st @ [ProgressEvent (pl_project_id pl1) (phase_name ph)
                                (getPhasePercentage ph) (''Starting '' @ phase_name ph @ ''...'')]
      in case handler (locals st) of
           (None, c) \<Rightarrow>
             (let pl2 = pl1\<lparr>phases := update_last (\<lambda>s. s\<lparr>phase_status := completed, progress := 100\<rparr>)
                                          (phases pl1),
                            progress_percentage := getPhasePercentage ph\<rparr>
              in (None,
                  \<lparr>locals = c, pipeline = pl2,
                   emitted = ev1 @ [ProgressEvent (pl_project_id pl2) (phase_name ph)
                                      (progress_percentage pl2) (''Completed '' @ phase_name ph)]\<rparr>))
         | (Some msg, c) \<Rightarrow>
             (let pl2 = pl1\<lparr>phases := update_last (\<lambda>s. s\<lparr>phase_status := failed, message := Some msg\<rparr>)
                                          (phases pl1)\<rparr>
              in (Some msg,
                  \<lparr>locals = c, pipeline = pl2,
                   emitted = ev1 @ [ErrorEvent (pl_project_id pl2) (phase_name ph) msg]\<rparr>)))"

text \<open>
  The \<^verbatim>\<open>await this.runPhase(...)\<close> statements of the \<^verbatim>\<open>try\<close> block, one after the other: the first
  one that throws ends the block.
\<close>

fun run_phases ::
  "(PhaseName \<times> ('c \<Rightarrow> string option \<times> 'c)) list \<Rightarrow> 'c orchestration \<Rightarrow> string option \<times> 'c orchestration" where
  "run_phases [] st = (None, st)"
| "run_phases ((ph, handler) # rest) st =
     (case runPhase ph handler st of
        (Some msg, st') \<Rightarrow> (Some msg, st')
      | (None, st') \<Rightarrow> run_phases rest st')"

record PublishParams =
  project_id :: string
  p_title :: string
  p_author :: string
  chapters :: "Chapter list"
  metadata :: BookMetadata
  formats :: "PublishingFormat list"
  distribution_channels :: "DistributionChannel list"

record FormatOutputs =
  fo_epub :: "EPUBFile option"
  fo_mobi :: "MOBIFile option"
  fo_pdf :: "PDFFile option"

text \<open>
  The variables of \<^verbatim>\<open>publishBook\<close> that its phase bodies assign and read, and the number of
  uuids drawn so far.
\<close>

record shared =
  formatOutputs :: FormatOutputs
  coverDesign :: "CoverGenerationResult option"
  optimizedMetadata :: "BookMetadata option"
  submissions :: "SubmissionResult list"
  uuids_drawn :: nat

text \<open>Phase 1: an ISBN for each format, in order; \<open>i\<close> counts the calls.\<close>

fun assign_isbns :: "env \<Rightarrow> nat \<Rightarrow> PublishingFormat list \<Rightarrow> string option" where
  "assign_isbns e i [] = None"
| "assign_isbns e i (f # fs) =
     (case assignISBN e i f of Some msg \<Rightarrow> Some msg | None \<Rightarrow> assign_isbns e (i + 1) fs)"

definition isbn_body :: "env \<Rightarrow> PublishParams \<Rightarrow> shared \<Rightarrow> string option \<times> shared" where
  "isbn_body e params c = (assign_isbns e 0 (formats params), c)"

definition copyright_body :: "env \<Rightarrow> PublishParams \<Rightarrow> shared \<Rightarrow> string option \<times> shared" where
  "copyright_body e params c = (registerCopyright e, c)"

definition lccn_body :: "env \<Rightarrow> PublishParams \<Rightarrow> shared \<Rightarrow> string option \<times> shared" where
  "lccn_body e params c = (applyForLCCN e, c)"

text \<open>
  Phase 4: the EPUB and from it the MOBI when \<^verbatim>\<open>ebook\<close> is requested, the PDF when \<^verbatim>\<open>print\<close>
  is. No cover is handed to \<^verbatim>\<open>convertToEPUB\<close>.
\<close>

definition ebook_part :: "env \<Rightarrow> PublishParams \<Rightarrow> shared \<Rightarrow> string option \<times> shared" where
  "ebook_part e params c =
     (if ebook \<in> set (formats params) then
        (case convertToEPUB e (uuids_drawn c)
                \<lparr>ep_project_id = project_id params, ep_chapters = chapters params,
                 ep_metadata = metadata params, ep_cover = None\<rparr> of
           Inl msg \<Rightarrow> (Some msg, c\<lparr>uuids_drawn := uuids_drawn c + 2\<rparr>)
         | Inr epub \<Rightarrow>
             (let c1 = c\<lparr>uuids_drawn := uuids_drawn c + 2,
                         formatOutputs := (formatOutputs c)\<lparr>fo_epub := Some epub\<rparr>\<rparr>
              in case convertToMOBI e (epub_file epub) (project_id params) of
                   Inl msg \<Rightarrow> (Some msg, c1)
                 | Inr mobi \<Rightarrow>
                     (None, c1\<lparr>formatOutputs := (formatOutputs c1)\<lparr>fo_mobi := Some mobi\<rparr>\<rparr>)))
      else (None, c))"

definition print_part :: "env \<Rightarrow> PublishParams \<Rightarrow> shared \<Rightarrow> string option \<times> shared" where
  "print_part e params c =
     (if print \<in> set (formats params) then
        (case convertToPDF e
                \<lparr>pp_project_id = project_id params, pp_chapters = chapters params,
                 pp_metadata = metadata params, pp_trim_size = Some ''6x9'',
                 pp_include_bleed = Some True\<rparr> of
           Inl msg \<Rightarrow> (Some msg, c)
         | Inr pdf \<Rightarrow> (None, c\<lparr>formatOutputs := (formatOutputs c)\<lparr>fo_pdf := Some pdf\<rparr>\<rparr>))
      else (None, c))"

definition format_body :: "env \<Rightarrow> PublishParams \<Rightarrow> shared \<Rightarrow> string option \<times> shared" where
  "format_body e params c =
     (case ebook_part e params c of
        (Some msg, c1) \<Rightarrow> (Some msg, c1)
      | (None, c1) \<Rightarrow> print_part e params c1)"

definition cover_body :: "env \<Rightarrow> PublishParams \<Rightarrow> shared \<Rightarrow> string option \<times> shared" where
  "cover_body e params c =
     (case generateCover e of
        Inl msg \<Rightarrow> (Some msg, c)
      | Inr cover \<Rightarrow> (None, c\<lparr>coverDesign := Some cover\<rparr>))"

definition metadata_body :: "env \<Rightarrow> PublishParams \<Rightarrow> shared \<Rightarrow> string option \<times> shared" where
  "metadata_body e params c =
     (case optimizeMetadata e (metadata params) of
        Inl msg \<Rightarrow> (Some msg, c)
      | Inr m \<Rightarrow> (None, c\<lparr>optimizedMetadata := Some m\<rparr>))"

text \<open>
  Phase 7. The calls of the validator that the body makes, in its order: the key under which
  the verdict is stored in \<^verbatim>\<open>validations\<close>, the channel argument of the call (none for
  \<^verbatim>\<open>validateEPUB\<close>) and the outcome. The cover is handed over as \<^verbatim>\<open>generateCover\<close> returned it.
\<close>

datatype validation_key = key_epub | key_pdf | key_cover

definition validation_calls ::
  "shared \<Rightarrow> (validation_key \<times> DistributionChannel option \<times> (string + ValidationResult)) list" where
  "validation_calls c =
     (case fo_epub (formatOutputs c) of
        None \<Rightarrow> []
      | Some epub \<Rightarrow>
          [(key_epub, None,
            (case optimizedMetadata c of
               None \<Rightarrow> Inl ''EPUB validation failed: Cannot read properties of undefined (reading 'title')''
             | Some m \<Rightarrow> Inr (validateEPUB epub m)))])
     @ (case fo_pdf (formatOutputs c) of
          None \<Rightarrow> []
        | Some pdf \<Rightarrow> [(key_pdf, Some ingram_spark, Inr (validatePDF pdf ingram_spark))])
     @ (case coverDesign c of
          None \<Rightarrow> []
        | Some cover \<Rightarrow> [(key_cover, Some amazon_kdp, validateCover (as_CoverDesign cover) amazon_kdp)])"

text \<open>The calls are awaited one after the other: the first that throws ends the body.\<close>

fun collect_validations ::
  "(validation_key \<times> DistributionChannel option \<times> (string + ValidationResult)) list
   \<Rightarrow> string + (validation_key \<times> ValidationResult) list" where
  "collect_validations [] = Inr []"
| "collect_validations ((k, ch, Inl msg) # rest) = Inl msg"
| "collect_validations ((k, ch, Inr v) # rest) =
     (case collect_validations rest of Inl msg \<Rightarrow> Inl msg | Inr vs \<Rightarrow> Inr ((k, v) # vs))"

definition quality_validations :: "shared \<Rightarrow> string + (validation_key \<times> ValidationResult) list" where
  "quality_validations c =
     (case collect_validations (validation_calls c) of
        Inl msg \<Rightarrow> Inl msg
      | Inr validations \<Rightarrow>
          (let hasCriticalErrors = list_ex (\<lambda>kv. \<not> valid (snd kv)) validations
           in if hasCriticalErrors then Inl ''Quality validation failed with critical errors''
              else Inr validations))"

definition quality_body :: "env \<Rightarrow> PublishParams \<Rightarrow> shared \<Rightarrow> string option \<times> shared" where
  "quality_body e params c =
     (case quality_validations c of Inl msg \<Rightarrow> (Some msg, c) | Inr validations \<Rightarrow> (None, c))"

text \<open>
  Phase 8. The request built for each channel that has a publisher; reading a property of an
  unset variable throws a \<^verbatim>\<open>TypeError\<close>.
\<close>

definition submissionRequest :: "PublishParams \<Rightarrow> shared \<Rightarrow> string + SubmissionRequest" where
  "submissionRequest params c =
     (case optimizedMetadata c of
        None \<Rightarrow> Inl ''Cannot read properties of undefined (reading 'title')''
      | Some m \<Rightarrow>
          (case coverDesign c of
             None \<Rightarrow> Inl ''Cannot read properties of undefined (reading 'front_cover')''
           | Some cover \<Rightarrow>
               Inr \<lparr>req_isbn = [], req_title = md_title m, req_author = md_author m,
                    req_description = md_description m,
                    req_categories = md_bisac_categories m, req_keywords = md_keywords m,
                    req_cover = cg_front_cover cover,
                    req_manuscript =
                      (case fo_epub (formatOutputs c) of
                         Some epub \<Rightarrow> Some (epub_file epub)
                       | None \<Rightarrow> map_option pdf_file (fo_pdf (formatOutputs c))),
                    req_price = md_price_usd (metadata params),
                    req_territories = [''US'', ''CA'', ''UK'', ''AU''],
                    req_drm_enabled = Some False\<rparr>))"

text \<open>
  The loop over the requested channels: a channel without a publisher is passed over; what
  \<^verbatim>\<open>submitBook\<close> returns is pushed; what it throws leaves the loop.
\<close>

fun submit_channels ::
  "env \<Rightarrow> PublishParams \<Rightarrow> DistributionChannel list \<Rightarrow> shared \<Rightarrow> string option \<times> shared" where
  "submit_channels e params [] c = (None, c)"
| "submit_channels e params (channel # rest) c =
     (case publishers channel of
        None \<Rightarrow> submit_channels e params rest c
      | Some submitBook \<Rightarrow>
          (case submissionRequest params c of
             Inl msg \<Rightarrow> (Some msg, c)
           | Inr request \<Rightarrow>
               (case submitBook e request of
                  Inl msg \<Rightarrow> (Some msg, c)
                | Inr submission \<Rightarrow>
                    submit_channels e params rest
                      (c\<lparr>submissions := submissions c @ [submission]\<rparr>))))"

definition submission_body :: "env \<Rightarrow> PublishParams \<Rightarrow> shared \<Rightarrow> string option \<times> shared" where
  "submission_body e params c = submit_channels e params (distribution_channels params) c"

text \<open>The eight phases in the order of the source.\<close>

definition publishBook_phases ::
  "env \<Rightarrow> PublishParams \<Rightarrow> (PhaseName \<times> (shared \<Rightarrow> string option \<times> shared)) list" where
  "publishBook_phases e params =
     [(isbn_acquisition, isbn_body e params),
      (copyright_registration, copyright_body e params),
      (lccn_application, lccn_body e params),
      (format_conversion, format_body e params),
      (cover_generation, cover_body e params),
      (metadata_optimization, metadata_body e params),
      (quality_validation, quality_body e params),
      (platform_submission, submission_body e params)]"

datatype PublishingStatus =
  draft | acquiring_isbn | registering_copyright | converting_formats | generating_cover
  | optimizing_metadata | validating | submitting | under_review | published | publishing_error

text \<open>\<^verbatim>\<open>PublishingProject\<close>, without its dates and its cost.\<close>

record PublishingProject =
  pr_id :: string
  prose_project_id :: string
  pr_title :: string
  pr_author :: string
  pr_formats :: "PublishingFormat list"
  pr_distribution_channels :: "DistributionChannel list"
  pr_status :: PublishingStatus

definition initial_state :: "PublishParams \<Rightarrow> shared orchestration" where
  "initial_state params =
     \<lparr>locals = \<lparr>formatOutputs = \<lparr>fo_epub = None, fo_mobi = None, fo_pdf = None\<rparr>,
                coverDesign = None, optimizedMetadata = None, submissions = [],
                uuids_drawn = 0\<rparr>,
      pipeline = \<lparr>pl_project_id = project_id params, current_phase = ''Initializing'',
                  progress_percentage = 0, phases = []\<rparr>,
      emitted = []\<rparr>"

text \<open>
  \<^verbatim>\<open>PublishingOrchestrator.publishBook\<close>: the phases, then the project record and its insertion
  into the database. Whatever is thrown in the \<^verbatim>\<open>try\<close> block is thrown to the caller as
  \<^verbatim>\<open>Publishing failed at <current phase>: <message>\<close>. The result is what the caller gets
  and the state in which the call ends.
\<close>

definition publishBook ::
  "env \<Rightarrow> PublishParams \<Rightarrow> (string + PublishingProject) \<times> shared orchestration" where
  "publishBook e params =
     (case run_phases (publishBook_phases e params) (initial_state params) of
        (Some msg, st) \<Rightarrow>
          (Inl (''Publishing failed at '' @ current_phase (pipeline st) @ '': '' @ msg), st)
      | (None, st) \<Rightarrow>
          (case db_query e ''INSERT INTO prose.publishing_projects'' of
             Some msg \<Rightarrow>
               (Inl (''Publishing failed at '' @ current_phase (pipeline st) @ '': '' @ msg), st)
           | None \<Rightarrow>
               (Inr \<lparr>pr_id = uuidv4 e (uuids_drawn (locals st)),
                     prose_project_id = project_id params,
                     pr_title = md_title (metadata params),
                     pr_author = md_author (metadata params),
                     pr_formats = formats params,
                     pr_distribution_channels = distribution_channels params,
                     pr_status = published\<rparr>, st)))"

text \<open>
  The phase bodies alone, one after the other on the shared variables: what \<open>run_phases\<close>
  does to \<open>locals\<close>, without the phase records and the events.
\<close>

fun run_bodies :: "(PhaseName \<times> ('c \<Rightarrow> string option \<times> 'c)) list \<Rightarrow> 'c \<Rightarrow> string option \<times> 'c" where
  "run_bodies [] c = (None, c)"
| "run_bodies ((ph, handler) # rest) c =
     (case handler c of
        (Some msg, c') \<Rightarrow> (Some msg, c')
      | (None, c') \<Rightarrow> run_bodies rest c')"


section \<open>Concrete inputs\<close>

text \<open>A submission request without a title, and a cover of 1600 by 2560 pixels.\<close>

definition untitled_request :: SubmissionRequest where
  "untitled_request =
     \<lparr>req_isbn = ''9780000000002'', req_title = [], req_author = ''Jane Roe'',
      req_description = ''A story.'', req_categories = [], req_keywords = [],
      req_cover = Buffer 2048, req_manuscript = Some (Buffer 4096), req_price = 9,
      req_territories = [''US''], req_drm_enabled = None\<rparr>"

definition portrait_cover :: CoverDesign where
  "portrait_cover =
     \<lparr>front_cover = Buffer 2048, dimensions = Some (1600, 2560), cover_format = Some jpg,
      dpi = Some 300, color_mode = Some RGB\<rparr>"

text \<open>
  An environment in which every external step succeeds, and a book of one chapter that is
  converted without a cover (as \<open>ebook_part\<close> calls the converter).
\<close>

definition sample_cover :: CoverGenerationResult where
  "sample_cover = \<lparr>cg_front_cover = Buffer 2048, cg_full_cover = None, cg_thumbnail = Buffer 256\<rparr>"

definition sample_env :: env where
  "sample_env =
     \<lparr>uuidv4 = (\<lambda>n. if n = 0 then ''3b241101-e2bb-4255-8caf-4136c566a962''
                    else if n = 1 then ''9f1a0c1e-5d2b-4f6a-8c3d-7e2b1a4c5d6f''
                    else ''c56a4180-65aa-42ec-a945-5fd21dec0538''),
      now_ms = 1700000000000,
      now_iso = ''2023-11-14T22:13:20.000Z'',
      outputDir = ''/app/outputs'',
      fs_mkdir = (\<lambda>p. None),
      fs_writeFile = (\<lambda>p. None),
      db_query = (\<lambda>q. None),
      zip_bytes = (\<lambda>a. Inr (Buffer 4096)),
      pdf_bytes = Inr (Buffer 8192),
      pdf_pages = (\<lambda>b. 30),
      ebook_convert = (\<lambda>b. Inr (Buffer 5000)),
      assignISBN = (\<lambda>i f. None),
      registerCopyright = None,
      applyForLCCN = None,
      generateCover = Inr sample_cover,
      optimizeMetadata = (\<lambda>m. Inr m),
      ingram_apiKey = False,
      ingram_api = Inl ''no key''\<rparr>"

definition sample_metadata :: BookMetadata where
  "sample_metadata =
     \<lparr>md_title = ''Sample Book'', md_subtitle = None, md_author = ''John Doe'',
      md_publisher = ''Self-Published'', md_publication_date = ''2024-01-15T00:00:00.000Z'',
      md_language = ''en'', md_genre = ''fiction'', md_description = ''A compelling story...'',
      md_bisac_categories = [], md_keywords = [], md_price_usd = 9\<rparr>"

definition chapter_at :: "nat \<Rightarrow> Chapter" where
  "chapter_at n =
     \<lparr>chapter_number = n, title = ''Part'', content = ''Once upon a time.'', word_count = 4\<rparr>"

definition book_of :: "Chapter list \<Rightarrow> EPUBParams" where
  "book_of chs =
     \<lparr>ep_project_id = ''p1'', ep_chapters = chs, ep_metadata = sample_metadata, ep_cover = None\<rparr>"

text \<open>
  A publish request for the sample book, and the shared variables as the submission phase
  finds them for a print-only book: a PDF, the generated cover and the optimized metadata.
\<close>

definition sample_params :: "PublishingFormat list \<Rightarrow> DistributionChannel list \<Rightarrow> PublishParams" where
  "sample_params fmts chans =
     \<lparr>project_id = ''p1'', p_title = ''Sample Book Title'', p_author = ''John Doe'',
      chapters = [chapter_at 1, chapter_at 2], metadata = sample_metadata,
      formats = fmts, distribution_channels = chans\<rparr>"

definition sample_pdf :: PDFFile where
  "sample_pdf =
     \<lparr>pdf_file = Buffer 8192, pdf_size = 8192, trim_size = ''6x9'', page_count = 30,
      bleed = True, color_profile = RGB\<rparr>"

definition print_locals :: shared where
  "print_locals =
     \<lparr>formatOutputs = \<lparr>fo_epub = None, fo_mobi = None, fo_pdf = Some sample_pdf\<rparr>,
      coverDesign = Some sample_cover, optimizedMetadata = Some sample_metadata,
      submissions = [], uuids_drawn = 0\<rparr>"






section \<open>The quality score\<close>

lemma verdict_fields:
  "quality_score (verdict f es ws) = calculateQualityScore es ws"
  "errors (verdict f es ws) = es"
  "warnings (verdict f es ws) = ws"
  "valid (verdict f es ws) = (filter (\<lambda>e. severity e = Critical) es = [])"
  by (simp_all add: verdict_def)

lemma adapter_verdict_fields:
  "quality_score (adapter_verdict f es ws) = 100 - 10 * int (length es) - 5 * int (length ws)"
  "errors (adapter_verdict f es ws) = es"
  "warnings (adapter_verdict f es ws) = ws"
  by (simp_all add: adapter_verdict_def)

lemma length_optional_diagnostic: "length (if b then [x] else []) \<le> Suc 0"
  by simp

lemma score_formula:
  "calculateQualityScore errs warns =
     max 0 (100 - 20 * int (length (filter (\<lambda>e. severity e = Critical) errs))
               - 10 * int (length (filter (\<lambda>e. severity e = Error) errs))
               - 5 * int (length (filter (\<lambda>w. impact w = High) warns))
               - 3 * int (length (filter (\<lambda>w. impact w = Medium) warns))
               - 1 * int (length (filter (\<lambda>w. impact w = Low) warns)))"
  by (simp add: calculateQualityScore_def Let_def)

lemma score_range:
  "0 \<le> calculateQualityScore errs warns \<and> calculateQualityScore errs warns \<le> 100"
  by (simp add: calculateQualityScore_def Let_def)

lemma validateEPUB_score:
  "quality_score (validateEPUB epub m) =
     calculateQualityScore (errors (validateEPUB epub m)) (warnings (validateEPUB epub m))"
  by (simp add: validateEPUB_def Let_def verdict_fields)

lemma validatePDF_score:
  "quality_score (validatePDF pdf ch) =
     calculateQualityScore (errors (validatePDF pdf ch)) (warnings (validatePDF pdf ch))"
  by (simp add: validatePDF_def Let_def verdict_fields)

lemma validateCover_score:
  "validateCover c ch = Inr v \<Longrightarrow>
     quality_score v = calculateQualityScore (errors v) (warnings v)"
  unfolding validateCover_def Let_def
  by (cases "dimensions c") (auto simp: verdict_fields split: prod.splits)

lemma kdp_validateFiles_lengths:
  assumes "kdp_validateFiles r = Inr v"
  shows "quality_score v = 100 - 10 * int (length (errors v)) - 5 * int (length (warnings v))
         \<and> length (errors v) \<le> 4 \<and> length (warnings v) \<le> 2"
proof -
  obtain m where m: "req_manuscript r = Some m"
    using assms by (cases "req_manuscript r") (simp_all add: kdp_validateFiles_def)
  define e1 where "e1 = (if buf_length m > 650 * 1024 * 1024
                         then [mk_error ''MANUSCRIPT_TOO_LARGE'' Critical] else [])"
  define e2 where "e2 = (if buf_length (req_cover r) = 0
                         then [mk_error ''MISSING_COVER'' Critical] else [])"
  define e3 where "e3 = (if req_title r = [] \<or> length (req_title r) = 0
                         then [mk_error ''MISSING_TITLE'' Critical] else [])"
  define e4 where "e4 = (if req_author r = [] \<or> length (req_author r) = 0
                         then [mk_error ''MISSING_AUTHOR'' Critical] else [])"
  define w1 where "w1 = (if length (req_categories r) > 2
                         then [mk_warning ''TOO_MANY_CATEGORIES'' Medium] else [])"
  define w2 where "w2 = (if length (req_keywords r) > 7
                         then [mk_warning ''TOO_MANY_KEYWORDS'' Low] else [])"
  have v: "v = adapter_verdict ''KDP Submission'' (e1 @ e2 @ e3 @ e4) (w1 @ w2)"
    using assms m
    unfolding kdp_validateFiles_def Let_def e1_def e2_def e3_def e4_def w1_def w2_def
    by simp
  have l: "length e1 \<le> Suc 0" "length e2 \<le> Suc 0" "length e3 \<le> Suc 0"
    "length e4 \<le> Suc 0" "length w1 \<le> Suc 0" "length w2 \<le> Suc 0"
    unfolding e1_def e2_def e3_def e4_def w1_def w2_def
    by (rule length_optional_diagnostic)+
  show ?thesis
    unfolding v adapter_verdict_fields using l by simp
qed

lemma ingram_validateFiles_lengths:
  assumes "ingram_validateFiles r = Inr v"
  shows "quality_score v = 100 - 10 * int (length (errors v)) - 5 * int (length (warnings v))
         \<and> length (errors v) \<le> 2 \<and> length (warnings v) = 0"
proof -
  obtain m where m: "req_manuscript r = Some m"
    using assms by (cases "req_manuscript r") (simp_all add: ingram_validateFiles_def)
  define e1 where "e1 = (if req_isbn r = [] then [mk_error ''MISSING_ISBN'' Critical] else [])"
  define e2 where "e2 = (if buf_length m > 500 * 1024 * 1024
                         then [mk_error ''PDF_TOO_LARGE'' Critical] else [])"
  have v: "v = adapter_verdict ''IngramSpark Submission'' (e1 @ e2) []"
    using assms m unfolding ingram_validateFiles_def Let_def e1_def e2_def by simp
  have l: "length e1 \<le> Suc 0" "length e2 \<le> Suc 0"
    unfolding e1_def e2_def by (rule length_optional_diagnostic)+
  show ?thesis
    unfolding v adapter_verdict_fields using l by simp
qed

text \<open>
  C9, as the claim states it, fails: the verdict of \<^verbatim>\<open>AmazonKDPPublisher.validateFiles\<close> on a
  request without a title holds one critical diagnostic and no other, and its score is 90,
  where 100 minus 20 per critical diagnostic is 80.
\<close>

theorem kdp_verdict_score_not_by_formula:
  "(case kdp_validateFiles untitled_request of
      Inl msg \<Rightarrow> False
    | Inr v \<Rightarrow> map severity (errors v) = [Critical] \<and> warnings v = []
               \<and> quality_score v = 90
               \<and> calculateQualityScore (errors v) (warnings v) = 80)"
  by (simp add: untitled_request_def kdp_validateFiles_def Let_def adapter_verdict_def
      mk_error_def calculateQualityScore_def)

text \<open>
  C9, amended: for every verdict of the \<^verbatim>\<open>QualityValidator\<close> (EPUB, PDF, cover) the quality score
  is 100 minus 20 per critical diagnostic, 10 per error diagnostic and 5, 3, 1 per warning of
  high, medium, low impact, floored at 0, and so lies between 0 and 100. The verdict of a
  publisher's own \<^verbatim>\<open>validateFiles\<close> (Amazon KDP, IngramSpark) has the score 100 minus 10 per
  diagnostic in \<^verbatim>\<open>errors\<close> and 5 per warning, without a floor; it lies between 50 and 100 for
  Amazon KDP and between 80 and 100 for IngramSpark.
\<close>

theorem quality_score_of_verdicts:
  "calculateQualityScore errs warns =
     max 0 (100 - 20 * int (length (filter (\<lambda>e. severity e = Critical) errs))
               - 10 * int (length (filter (\<lambda>e. severity e = Error) errs))
               - 5 * int (length (filter (\<lambda>w. impact w = High) warns))
               - 3 * int (length (filter (\<lambda>w. impact w = Medium) warns))
               - 1 * int (length (filter (\<lambda>w. impact w = Low) warns)))
   \<and> 0 \<le> calculateQualityScore errs warns \<and> calculateQualityScore errs warns \<le> 100
   \<and> quality_score (validateEPUB epub m) =
       calculateQualityScore (errors (validateEPUB epub m)) (warnings (validateEPUB epub m))
   \<and> quality_score (validatePDF pdf ch) =
       calculateQualityScore (errors (validatePDF pdf ch)) (warnings (validatePDF pdf ch))
   \<and> (validateCover cover cch = Inr vc \<longrightarrow>
       quality_score vc = calculateQualityScore (errors vc) (warnings vc))
   \<and> (kdp_validateFiles rk = Inr vk \<longrightarrow>
       quality_score vk = 100 - 10 * int (length (errors vk)) - 5 * int (length (warnings vk))
       \<and> 50 \<le> quality_score vk \<and> quality_score vk \<le> 100)
   \<and> (ingram_validateFiles ri = Inr vi \<longrightarrow>
       quality_score vi = 100 - 10 * int (length (errors vi)) - 5 * int (length (warnings vi))
       \<and> 80 \<le> quality_score vi \<and> quality_score vi \<le> 100)"
proof -
  have k: "kdp_validateFiles rk = Inr vk \<longrightarrow>
       quality_score vk = 100 - 10 * int (length (errors vk)) - 5 * int (length (warnings vk))
       \<and> 50 \<le> quality_score vk \<and> quality_score vk \<le> 100"
    using kdp_validateFiles_lengths [of rk vk] by auto
  have i: "ingram_validateFiles ri = Inr vi \<longrightarrow>
       quality_score vi = 100 - 10 * int (length (errors vi)) - 5 * int (length (warnings vi))
       \<and> 80 \<le> quality_score vi \<and> quality_score vi \<le> 100"
    using ingram_validateFiles_lengths [of ri vi] by auto
  show ?thesis
    using score_formula [of errs warns] score_range [of errs warns]
      validateEPUB_score [of epub m] validatePDF_score [of pdf ch]
      validateCover_score [of cover cch vc] k i
    by blast
qed

theorem quality_score_of_verdicts_witness:
  "(\<exists>v. validateCover portrait_cover ingram_spark = Inr v
        \<and> quality_score v = calculateQualityScore (errors v) (warnings v)
        \<and> quality_score v = 77)
   \<and> (\<exists>v. kdp_validateFiles untitled_request = Inr v \<and> quality_score v = 90)
   \<and> (\<exists>v. ingram_validateFiles untitled_request = Inr v \<and> quality_score v = 100)"
proof -
  define vc where "vc = verdict ''Cover Image'' [mk_error ''COVER_TOO_SMALL'' Critical]
                           [mk_warning ''WRONG_COLOR_MODE'' Medium]"
  define vk where "vk = adapter_verdict ''KDP Submission'' [mk_error ''MISSING_TITLE'' Critical] []"
  define vi where "vi = adapter_verdict ''IngramSpark Submission'' [] []"
  have c: "validateCover portrait_cover ingram_spark = Inr vc"
    unfolding vc_def
    by (simp add: portrait_cover_def validateCover_def getCoverRequirements_def Let_def
        unusual_aspect_ratio_def)
  have c77: "calculateQualityScore (errors vc) (warnings vc) = 77"
    unfolding vc_def verdict_fields
    by (simp add: calculateQualityScore_def mk_error_def mk_warning_def)
  have k: "kdp_validateFiles untitled_request = Inr vk"
    unfolding vk_def by (simp add: untitled_request_def kdp_validateFiles_def Let_def)
  have kl: "length (errors vk) = 1" "length (warnings vk) = 0"
    unfolding vk_def adapter_verdict_fields by simp_all
  have i: "ingram_validateFiles untitled_request = Inr vi"
    unfolding vi_def by (simp add: untitled_request_def ingram_validateFiles_def Let_def)
  have il: "length (errors vi) = 0" "length (warnings vi) = 0"
    unfolding vi_def adapter_verdict_fields by simp_all
  show ?thesis
    using quality_score_of_verdicts [where cover = portrait_cover and cch = ingram_spark
        and vc = vc and rk = untitled_request and vk = vk and ri = untitled_request and vi = vi]
      c c77 k kl i il
    by simp
qed

section \<open>The EPUB package\<close>

subsection \<open>Chapter names\<close>

lemma digit_inj:
  assumes "a < 10" "b < 10" "''0123456789'' ! a = ''0123456789'' ! b"
  shows "a = b"
proof -
  have d: "distinct ''0123456789''" by simp
  have l: "length ''0123456789'' = 10" by simp
  show ?thesis
    using assms d l nth_eq_iff_index_eq [of "''0123456789''" a b] by simp
qed

lemma show_nat_length: "length (show_nat n) = 1 \<longleftrightarrow> n < 10"
proof (cases "n < 10")
  case True
  then show ?thesis by (simp add: show_nat.simps [of n])
next
  case False
  have "show_nat (n div 10) \<noteq> []"
    by (subst show_nat.simps) simp
  with False show ?thesis by (simp add: show_nat.simps [of n])
qed

lemma show_nat_inj: "show_nat n = show_nat m \<Longrightarrow> n = m"
proof (induction n arbitrary: m rule: less_induct)
  case (less n)
  have len: "(n < 10) = (m < 10)"
    using less.prems show_nat_length [of n] show_nat_length [of m] by simp
  show ?case
  proof (cases "n < 10")
    case True
    with len have m: "m < 10" by simp
    from less.prems True m have "''0123456789'' ! n = ''0123456789'' ! m"
      by (simp add: show_nat.simps [of n] show_nat.simps [of m])
    with True m show ?thesis by (rule digit_inj)
  next
    case False
    with len have m: "\<not> m < 10" by simp
    from less.prems False m
    have "show_nat (n div 10) @ [''0123456789'' ! (n mod 10)]
            = show_nat (m div 10) @ [''0123456789'' ! (m mod 10)]"
      by (simp add: show_nat.simps [of n] show_nat.simps [of m])
    then have a: "show_nat (n div 10) = show_nat (m div 10)"
      and b: "''0123456789'' ! (n mod 10) = ''0123456789'' ! (m mod 10)"
      by simp_all
    from False have "n div 10 < n" by simp
    from less.IH [OF this a] have d: "n div 10 = m div 10" .
    have "n mod 10 = m mod 10"
      by (rule digit_inj [OF _ _ b]) simp_all
    with d show ?thesis by (metis div_mult_mod_eq)
  qed
qed

lemma chapter_href_inj: "chapter_href i = chapter_href j \<Longrightarrow> i = j"
  using show_nat_inj [of "i + 1" "j + 1"] by (simp add: chapter_href_def chapter_id_def)


subsection \<open>The entries of the archive\<close>

lemma zip_file_new:
  "name \<notin> set (map entry_name z) \<Longrightarrow>
     zip_file name d c z = z @ [\<lparr>entry_name = name, entry_data = d, entry_compression = c\<rparr>]"
  by (simp add: zip_file_def Let_def)

lemma foldl_zip_file_new:
  assumes "distinct (map f is)" "set (map f is) \<inter> set (map entry_name z) = {}"
  shows "foldl (\<lambda>zip i. zip_file (f i) (d i) None zip) z is
         = z @ map (\<lambda>i. \<lparr>entry_name = f i, entry_data = d i, entry_compression = None\<rparr>) is"
  using assms
proof (induction "is" arbitrary: z)
  case Nil
  then show ?case by simp
next
  case (Cons i "is")
  have new: "f i \<notin> set (map entry_name z)"
    using Cons.prems(2) by auto
  let ?z = "z @ [\<lparr>entry_name = f i, entry_data = d i, entry_compression = None\<rparr>]"
  have "distinct (map f is)"
    using Cons.prems(1) by simp
  moreover have "set (map f is) \<inter> set (map entry_name ?z) = {}"
    using Cons.prems by auto
  ultimately show ?case
    using Cons.IH [of ?z] new by (simp add: zip_file_new)
qed

lemma snd_generateContentOPF: "snd (generateContentOPF e g m c) = g + 1"
  by (simp add: generateContentOPF_def)

lemma snd_generateTocNCX: "snd (generateTocNCX e g m c) = g + 1"
  by (simp add: generateTocNCX_def)

lemma chapter_path_not_fixed:
  "''OEBPS/'' @ chapter_href i \<notin>
     {''mimetype'', ''META-INF/container.xml'', ''OEBPS/content.opf'', ''OEBPS/toc.ncx'',
      ''OEBPS/nav.xhtml'', ''OEBPS/styles.css'', ''OEBPS/cover.jpg'', ''OEBPS/cover.xhtml''}"
  by (simp add: chapter_href_def chapter_id_def)

lemma distinct_chapter_paths: "distinct (map (\<lambda>i. ''OEBPS/'' @ chapter_href i) [0..<n])"
  by (simp add: distinct_map inj_on_def) (blast dest: chapter_href_inj)

lemma add_chapters_entries:
  assumes "set (map entry_name z) \<subseteq>
     {''mimetype'', ''META-INF/container.xml'', ''OEBPS/content.opf'', ''OEBPS/toc.ncx'',
      ''OEBPS/nav.xhtml'', ''OEBPS/styles.css'', ''OEBPS/cover.jpg'', ''OEBPS/cover.xhtml''}"
  shows "add_chapters chs z =
     z @ map (\<lambda>i. \<lparr>entry_name = ''OEBPS/'' @ chapter_href i,
                    entry_data = Text (generateChapterXHTML (chs ! i)),
                    entry_compression = None\<rparr>) [0..<length chs]"
  unfolding add_chapters_def
proof (rule foldl_zip_file_new)
  show "distinct (map (\<lambda>i. ''OEBPS/'' @ chapter_href i) [0..<length chs])"
    by (rule distinct_chapter_paths)
  show "set (map (\<lambda>i. ''OEBPS/'' @ chapter_href i) [0..<length chs]) \<inter> set (map entry_name z) = {}"
    using assms chapter_path_not_fixed by fastforce
qed

text \<open>
  The zip object that \<open>convertToEPUB\<close> builds: six entries for every book, two more when
  a cover is given, and one for each chapter; no \<^verbatim>\<open>zip.file\<close> call overwrites an earlier one.
\<close>

lemma epub_zip_entries:
  "fst (epub_zip e g p) =
     [\<lparr>entry_name = ''mimetype'', entry_data = Text ''application/epub+zip'',
       entry_compression = Some STORE\<rparr>,
      \<lparr>entry_name = ''META-INF/container.xml'', entry_data = Text generateContainerXML,
       entry_compression = None\<rparr>,
      \<lparr>entry_name = ''OEBPS/content.opf'',
       entry_data = Text (fst (generateContentOPF e g (ep_metadata p) (ep_chapters p))),
       entry_compression = None\<rparr>,
      \<lparr>entry_name = ''OEBPS/toc.ncx'',
       entry_data = Text (fst (generateTocNCX e (g + 1) (ep_metadata p) (ep_chapters p))),
       entry_compression = None\<rparr>,
      \<lparr>entry_name = ''OEBPS/nav.xhtml'', entry_data = Text (generateNavXHTML (ep_chapters p)),
       entry_compression = None\<rparr>,
      \<lparr>entry_name = ''OEBPS/styles.css'', entry_data = Text generateStylesheet,
       entry_compression = None\<rparr>]
     @ (case ep_cover p of
          None \<Rightarrow> []
        | Some cover \<Rightarrow>
            [\<lparr>entry_name = ''OEBPS/cover.jpg'', entry_data = Bytes (front_cover cover),
              entry_compression = None\<rparr>,
             \<lparr>entry_name = ''OEBPS/cover.xhtml'', entry_data = Text generateCoverXHTML,
              entry_compression = None\<rparr>])
     @ map (\<lambda>i. \<lparr>entry_name = ''OEBPS/'' @ chapter_href i,
                    entry_data = Text (generateChapterXHTML (ep_chapters p ! i)),
                    entry_compression = None\<rparr>) [0..<length (ep_chapters p)]"
proof (cases "ep_cover p")
  case None
  then show ?thesis
    unfolding epub_zip_def Let_def split_def snd_generateContentOPF snd_generateTocNCX
    by (subst add_chapters_entries) (simp_all add: zip_file_def)
next
  case (Some c)
  then show ?thesis
    unfolding epub_zip_def Let_def split_def snd_generateContentOPF snd_generateTocNCX
    by (subst add_chapters_entries) (simp_all add: zip_file_def)
qed

subsection \<open>The sentinel entry\<close>


subsection \<open>The reading order\<close>






subsection \<open>The manifest and the cover\<close>

text \<open>
  With a cover the two cover files are in the archive, and every file that the manifest
  names is; without one they are not, for any book.
\<close>

lemma manifest_length: "length (opf_manifest chs) = length chs + 5"
  by (simp add: opf_manifest_def fixedManifest_def chapterManifest_def)

lemma archive_paths:
  "map path (epub_archive e g p) =
     [''mimetype'', ''META-INF/container.xml'', ''OEBPS/content.opf'', ''OEBPS/toc.ncx'',
      ''OEBPS/nav.xhtml'', ''OEBPS/styles.css'']
     @ (case ep_cover p of None \<Rightarrow> [] | Some cover \<Rightarrow> [''OEBPS/cover.jpg'', ''OEBPS/cover.xhtml''])
     @ map (\<lambda>i. ''OEBPS/'' @ chapter_href i) [0..<length (ep_chapters p)]"
  unfolding epub_archive_def epub_zip_entries generateAsync_def
  by (cases "ep_cover p") (simp_all add: comp_def)

lemma manifest_resolves_with_cover:
  assumes "ep_cover p = Some cover"
  shows "list_all (\<lambda>it. ''OEBPS/'' @ href it \<in> set (map path (epub_archive e g p)))
           (opf_manifest (ep_chapters p))"
  unfolding archive_paths
  using assms
  by (simp add: opf_manifest_def fixedManifest_def chapterManifest_def list_all_iff)

lemma cover_files_absent_without_cover:
  assumes "ep_cover p = None"
  shows "''OEBPS/cover.jpg'' \<notin> set (map path (epub_archive e g p))
         \<and> ''OEBPS/cover.xhtml'' \<notin> set (map path (epub_archive e g p))"
  unfolding archive_paths
  using assms by (auto simp: chapter_href_def chapter_id_def)

text \<open>
  C3 is not met by the code when no cover is given, which is how \<^verbatim>\<open>publishBook\<close> calls the
  converter: \<^verbatim>\<open>generateContentOPF\<close> writes the items \<^verbatim>\<open>cover-image\<close> and \<^verbatim>\<open>cover\<close> into every manifest,
  while \<^verbatim>\<open>convertToEPUB\<close> adds the two files only \<^verbatim>\<open>if (params.cover)\<close>. For a book of one chapter
  without a cover the manifest has 6 items (not 1 + 3), and two of them name files that the
  archive does not hold.
\<close>

theorem manifest_names_absent_cover_files:
  "ep_cover (book_of [chapter_at 1]) = None
   \<and> map href (opf_manifest (ep_chapters (book_of [chapter_at 1])))
       = [''nav.xhtml'', ''toc.ncx'', ''cover.jpg'', ''cover.xhtml'', ''styles.css'',
          ''chapter1.xhtml'']
   \<and> length (opf_manifest (ep_chapters (book_of [chapter_at 1]))) = 6
   \<and> map path (epub_archive sample_env 0 (book_of [chapter_at 1]))
       = [''mimetype'', ''META-INF/container.xml'', ''OEBPS/content.opf'', ''OEBPS/toc.ncx'',
          ''OEBPS/nav.xhtml'', ''OEBPS/styles.css'', ''OEBPS/chapter1.xhtml'']"
  unfolding epub_archive_def epub_zip_entries generateAsync_def
  by (simp add: book_of_def opf_manifest_def fixedManifest_def chapterManifest_def
      chapter_href_def chapter_id_def show_nat.simps)

subsection \<open>The unique identifier\<close>

text \<open>The two identifiers of a build differ whenever two successive uuid draws do.\<close>

lemma identifiers_differ_when_draws_differ:
  "uuidv4 e g \<noteq> uuidv4 e (g + 1) \<Longrightarrow> opf_identifier e g \<noteq> ncx_uid e (g + 1)"
  by (simp add: opf_identifier_def ncx_uid_def)

text \<open>
  C5 is not met by the code: \<^verbatim>\<open>generateContentOPF\<close> and \<^verbatim>\<open>generateTocNCX\<close> each call \<^verbatim>\<open>uuidv4()\<close>, so
  the \<^verbatim>\<open>dc:identifier\<close> of the package document (its only identifier element) and the \<^verbatim>\<open>dtb:uid\<close>
  of the NCX are two different draws. With a generator whose first two values differ, the
  two files of one build carry different identifiers.
\<close>

theorem opf_and_ncx_identifiers_differ:
  \<open>map entry_data (filter (\<lambda>x. entry_name x \<in> {''OEBPS/content.opf'', ''OEBPS/toc.ncx''})
        (fst (epub_zip sample_env 0 (book_of [chapter_at 1]))))
     = [Text (fst (generateContentOPF sample_env 0 sample_metadata [chapter_at 1])),
        Text (fst (generateTocNCX sample_env 1 sample_metadata [chapter_at 1]))]
   \<and> map render_metadata
        (filter (\<lambda>el. fst el = ''dc:identifier'') (opf_metadata sample_env 0 sample_metadata))
       = [''    <dc:identifier id="BookID">urn:uuid:3b241101-e2bb-4255-8caf-4136c566a962</dc:identifier>'']
   \<and> opf_identifier sample_env 0 = ''urn:uuid:3b241101-e2bb-4255-8caf-4136c566a962''
   \<and> ncx_uid sample_env 1 = ''urn:uuid:9f1a0c1e-5d2b-4f6a-8c3d-7e2b1a4c5d6f''
   \<and> opf_identifier sample_env 0 \<noteq> ncx_uid sample_env 1\<close>
  unfolding epub_zip_entries
  by (simp add: book_of_def opf_metadata_def opf_identifier_def ncx_uid_def sample_env_def
      render_metadata_def chapter_href_def chapter_id_def show_nat.simps)

subsection \<open>Chapter ordinals are not checked\<close>










section \<open>The pipeline\<close>

subsection \<open>Running phases\<close>

lemma update_last_snoc: "update_last f (xs @ [x]) = xs @ [f x]"
  by (simp add: update_last_def)


lemma runPhase_failed:
  assumes "handler (locals st) = (Some msg, c)"
  shows "runPhase ph handler st =
     (Some msg,
      \<lparr>locals = c,
       pipeline = (pipeline st)
         \<lparr>phases := phases (pipeline st)
              @ [\<lparr>phase = ph, phase_status = failed, progress = 0, message = Some msg\<rparr>],
          current_phase := phase_name ph\<rparr>,
       emitted = emitted st
         @ [ProgressEvent (pl_project_id (pipeline st)) (phase_name ph) (getPhasePercentage ph)
              (''Starting '' @ phase_name ph @ ''...''),
            ErrorEvent (pl_project_id (pipeline st)) (phase_name ph) msg]\<rparr>)"
  using assms by (simp add: runPhase_def Let_def update_last_snoc)

lemma run_phases_append:
  "run_phases (xs @ ys) st =
     (case run_phases xs st of
        (Some msg, st') \<Rightarrow> (Some msg, st')
      | (None, st') \<Rightarrow> run_phases ys st')"
  by (induction xs st rule: run_phases.induct) (auto split: prod.splits option.splits)




lemma runPhase_body:
  "fst (runPhase ph handler st) = fst (handler (locals st))
   \<and> locals (snd (runPhase ph handler st)) = snd (handler (locals st))"
  by (cases "handler (locals st)") (auto simp: runPhase_def Let_def split: option.splits)

lemma run_phases_bodies:
  "fst (run_phases xs st) = fst (run_bodies xs (locals st))
   \<and> locals (snd (run_phases xs st)) = snd (run_bodies xs (locals st))"
proof (induction xs st rule: run_phases.induct)
  case (1 st)
  then show ?case by simp
next
  case (2 ph handler rest st)
  obtain r st1 where rp: "runPhase ph handler st = (r, st1)"
    by (cases "runPhase ph handler st")
  obtain r' c where h: "handler (locals st) = (r', c)"
    by (cases "handler (locals st)")
  from runPhase_body [of ph handler st] rp h have eq: "r = r'" "locals st1 = c"
    by simp_all
  show ?case
  proof (cases r)
    case None
    with "2.IH" [OF rp [symmetric]] rp h eq show ?thesis by simp
  next
    case (Some m)
    with rp h eq show ?thesis by auto
  qed
qed

lemma run_bodies_append:
  "run_bodies (xs @ ys) c =
     (case run_bodies xs c of
        (Some msg, c') \<Rightarrow> (Some msg, c')
      | (None, c') \<Rightarrow> run_bodies ys c')"
  by (induction xs c rule: run_bodies.induct) (auto split: prod.splits option.splits)

lemma phase_failure:
  assumes split: "publishBook_phases e params = pre @ (ph, body) # post"
    and before: "run_phases pre (initial_state params) = (None, st)"
    and throws: "body (locals st) = (Some msg, c)"
  shows "publishBook e params =
     (Inl (''Publishing failed at '' @ phase_name ph @ '': '' @ msg),
      \<lparr>locals = c,
       pipeline = (pipeline st)
         \<lparr>phases := phases (pipeline st)
              @ [\<lparr>phase = ph, phase_status = failed, progress = 0, message = Some msg\<rparr>],
          current_phase := phase_name ph\<rparr>,
       emitted = emitted st
         @ [ProgressEvent (pl_project_id (pipeline st)) (phase_name ph) (getPhasePercentage ph)
              (''Starting '' @ phase_name ph @ ''...''),
            ErrorEvent (pl_project_id (pipeline st)) (phase_name ph) msg]\<rparr>)"
proof -
  have rf: "runPhase ph body st =
     (Some msg,
      \<lparr>locals = c,
       pipeline = (pipeline st)
         \<lparr>phases := phases (pipeline st)
              @ [\<lparr>phase = ph, phase_status = failed, progress = 0, message = Some msg\<rparr>],
          current_phase := phase_name ph\<rparr>,
       emitted = emitted st
         @ [ProgressEvent (pl_project_id (pipeline st)) (phase_name ph) (getPhasePercentage ph)
              (''Starting '' @ phase_name ph @ ''...''),
            ErrorEvent (pl_project_id (pipeline st)) (phase_name ph) msg]\<rparr>)"
    using throws by (rule runPhase_failed)
  show ?thesis
    by (simp add: publishBook_def split run_phases_append before rf)
qed

subsection \<open>A failing phase\<close>


subsection \<open>The sample book through the pipeline\<close>

lemma sample_bodies:
  "isbn_body sample_env (sample_params [print] chs) c = (None, c)"
  "copyright_body sample_env (sample_params [print] chs) c = (None, c)"
  "lccn_body sample_env (sample_params [print] chs) c = (None, c)"
  "format_body sample_env (sample_params [print] chs) c
     = (None, c\<lparr>formatOutputs := (formatOutputs c)\<lparr>fo_pdf := Some sample_pdf\<rparr>\<rparr>)"
  "cover_body sample_env (sample_params [print] chs) c = (None, c\<lparr>coverDesign := Some sample_cover\<rparr>)"
  "metadata_body sample_env (sample_params [print] chs) c
     = (None, c\<lparr>optimizedMetadata := Some sample_metadata\<rparr>)"
  by (simp_all add: isbn_body_def copyright_body_def lccn_body_def format_body_def ebook_part_def
      print_part_def cover_body_def metadata_body_def sample_env_def sample_params_def
      convertToPDF_def sample_pdf_def)

lemma sample_six:
  "run_bodies (take 6 (publishBook_phases sample_env (sample_params [print] chs)))
     (locals (initial_state (sample_params [print] chs))) = (None, print_locals)"
  by (simp add: publishBook_phases_def sample_bodies initial_state_def print_locals_def)

lemma sample_quality:
  "quality_body e p print_locals
     = (Some ''Cannot read properties of undefined (reading 'width')'', print_locals)"
  by (simp add: quality_body_def quality_validations_def validation_calls_def print_locals_def
      validateCover_def as_CoverDesign_def)


subsection \<open>The quality validation phase\<close>

lemma collect_Inl:
  "collect_validations xs = Inl msg \<Longrightarrow> list_ex (\<lambda>x. isl (snd (snd x))) xs"
  by (induction xs rule: collect_validations.induct) (auto split: sum.splits)









subsection \<open>The submission phase\<close>


lemma submit_channels_skip:
  "submit_channels e params chans c =
     submit_channels e params (filter (\<lambda>ch. publishers ch \<noteq> None) chans) c"
  by (induction chans arbitrary: c) (auto split: option.splits sum.splits)

lemma submit_channels_unregistered:
  "list_all (\<lambda>ch. publishers ch = None) chans \<Longrightarrow> submit_channels e params chans c = (None, c)"
  by (induction chans) auto




subsection \<open>Publishing to a channel without a publisher\<close>

lemma collect_validations_last_throws:
  "\<exists>m. collect_validations (xs @ [(k, ch, Inl msg)]) = Inl m"
  by (induction xs rule: collect_validations.induct) (auto split: sum.splits)

lemma quality_body_with_generated_cover:
  assumes "coverDesign c = Some cover"
  shows "\<exists>m. quality_body e params c = (Some m, c)"
proof -
  have "validateCover (as_CoverDesign cover) amazon_kdp
        = Inl ''Cannot read properties of undefined (reading 'width')''"
    by (simp add: validateCover_def as_CoverDesign_def)
  then obtain xs where "validation_calls c =
      xs @ [(key_cover, Some amazon_kdp, Inl ''Cannot read properties of undefined (reading 'width')'')]"
    using assms by (simp add: validation_calls_def)
  with collect_validations_last_throws [of xs key_cover "Some amazon_kdp"]
  obtain m where "collect_validations (validation_calls c) = Inl m"
    by auto
  then show ?thesis by (simp add: quality_body_def quality_validations_def)
qed

lemma cover_body_sets_cover:
  "cover_body e params c = (None, c') \<Longrightarrow> \<exists>cover. coverDesign c' = Some cover"
  by (auto simp: cover_body_def split: sum.splits)

lemma metadata_body_keeps_cover:
  "metadata_body e params c = (None, c') \<Longrightarrow> coverDesign c' = coverDesign c"
  by (auto simp: metadata_body_def split: sum.splits)

lemma bodies_never_pass_validation:
  "\<exists>m. fst (run_bodies (publishBook_phases e params) c) = Some m"
proof -
  let ?four = "[(isbn_acquisition, isbn_body e params),
      (copyright_registration, copyright_body e params),
      (lccn_application, lccn_body e params),
      (format_conversion, format_body e params)]"
  let ?rest = "[(quality_validation, quality_body e params),
      (platform_submission, submission_body e params)]"
  have split: "publishBook_phases e params =
      ?four @ (cover_generation, cover_body e params)
            # (metadata_optimization, metadata_body e params) # ?rest"
    by (simp add: publishBook_phases_def)
  obtain r4 c4 where f: "run_bodies ?four c = (r4, c4)"
    by (cases "run_bodies ?four c")
  show ?thesis
  proof (cases r4)
    case (Some m)
    with f show ?thesis
      unfolding split run_bodies_append by simp
  next
    case None
    note r4 = this
    obtain r5 c5 where cv: "cover_body e params c4 = (r5, c5)"
      by (cases "cover_body e params c4")
    show ?thesis
    proof (cases r5)
      case (Some m)
      with f r4 cv show ?thesis
        unfolding split run_bodies_append by simp
    next
      case None
      note r5 = this
      from cover_body_sets_cover cv r5 obtain cover where c5: "coverDesign c5 = Some cover"
        by blast
      obtain r6 c6 where md: "metadata_body e params c5 = (r6, c6)"
        by (cases "metadata_body e params c5")
      show ?thesis
      proof (cases r6)
        case (Some m)
        with f r4 cv r5 md show ?thesis
          unfolding split run_bodies_append by simp
      next
        case None
        with metadata_body_keeps_cover md c5 have "coverDesign c6 = Some cover"
          by simp
        from quality_body_with_generated_cover [OF this, of e params]
        obtain m where "quality_body e params c6 = (Some m, c6)" by blast
        with f r4 cv r5 md None show ?thesis
          unfolding split run_bodies_append by simp
      qed
    qed
  qed
qed

lemma publishBook_never_returns_a_project:
  "\<exists>msg. fst (publishBook e params) = Inl msg"
proof -
  from bodies_never_pass_validation [of e params "locals (initial_state params)"]
  obtain m where "fst (run_bodies (publishBook_phases e params) (locals (initial_state params))) = Some m"
    by blast
  with run_phases_bodies [of "publishBook_phases e params" "initial_state params"]
  have "fst (run_phases (publishBook_phases e params) (initial_state params)) = Some m"
    by simp
  then show ?thesis
    by (cases "run_phases (publishBook_phases e params) (initial_state params)")
       (simp add: publishBook_def)
qed

text \<open>
  C10 is not met by the code. The submission loop does pass over a channel without a
  publisher (\<open>submit_channels_skip\<close>, \<open>submit_channels_unregistered\<close>), but no publish call
  completes: the validation phase hands the value of \<^verbatim>\<open>generateCover\<close>, which has no
  \<^verbatim>\<open>dimensions\<close>, to \<^verbatim>\<open>validateCover\<close>, which throws on reading \<^verbatim>\<open>cover.dimensions.width\<close>
  (\<open>publishBook_never_returns_a_project\<close>). For the sample book in print with the channel
  \<^verbatim>\<open>kobo\<close> and every external step succeeding, the loop over the channels alone would end
  without a submission and without an error, and the publish call throws at the validation
  phase.
\<close>

theorem publish_to_unregistered_channel_fails:
  "submit_channels sample_env (sample_params [print] [kobo]) [kobo] print_locals
     = (None, print_locals)
   \<and> fst (publishBook sample_env (sample_params [print] [kobo]))
     = Inl ''Publishing failed at quality_validation: Cannot read properties of undefined (reading 'width')''"
proof -
  let ?P = "sample_params [print] [kobo]"
  let ?pre = "take 6 (publishBook_phases sample_env ?P)"
  have split: "publishBook_phases sample_env ?P =
      ?pre @ (quality_validation, quality_body sample_env ?P)
           # [(platform_submission, submission_body sample_env ?P)]"
    by (simp add: publishBook_phases_def)
  obtain r st where rp: "run_phases ?pre (initial_state ?P) = (r, st)"
    by (cases "run_phases ?pre (initial_state ?P)")
  from run_phases_bodies [of ?pre "initial_state ?P"] rp sample_six [of "[kobo]"]
  have r: "r = None" and l: "locals st = print_locals" by simp_all
  have throws: "quality_body sample_env ?P (locals st)
     = (Some ''Cannot read properties of undefined (reading 'width')'', print_locals)"
    unfolding l by (rule sample_quality)
  have skip: "submit_channels sample_env ?P [kobo] print_locals = (None, print_locals)"
    by (simp add: publishers_def)
  from phase_failure [OF split rp [unfolded r] throws] skip show ?thesis
    by (simp add: phase_name_def)
qed

end
